theory Spec2Isabelle
  imports Complex_Main "HOL-Library.List_Lexorder" "HOL-Library.Char_ord" "HOL-Library.Log_Nat"
begin

section \<open>Errors\<close>

text \<open>
  Every \<open>throw\<close> of the modelled code is a value of this type.
  \<^item> \<open>InitFailed\<close>: \<open>new Error('Failed to initialize database')\<close> (db/client.ts, the catch
    block of \<open>initializeDatabase\<close>);
  \<^item> \<open>NotReady\<close>: \<open>'[Database] Not ready. ...'\<close> thrown by \<open>ensureDBReady\<close>;
  \<^item> \<open>NotInitialized\<close>: \<open>'[Database] Not initialized. ...'\<close> thrown by \<open>getDB\<close>;
  \<^item> \<open>NotFound i\<close>: \<open>`Sale ${id} not found after update`\<close> and its product twin;
  \<^item> \<open>ConstraintFailed\<close>: SQLite rejecting an INSERT whose primary key is taken;
  \<^item> \<open>QuantityNotPositive\<close>: \<open>'Quantity must be greater than 0'\<close>, \<open>ProductNotFound\<close>:
    \<open>'Product not found'\<close>, \<open>CreateSaleFailed\<close>: \<open>'Failed to create sale. Please try
    again.'\<close>, the three errors of the service function \<open>createSale\<close>.
\<close>

datatype error = InitFailed | NotReady | NotInitialized | NotFound string | ConstraintFailed
  | QuantityNotPositive | ProductNotFound | CreateSaleFailed

section \<open>Storage engine (db/client.ts)\<close>

text \<open>
  The module-level variables \<open>sqliteDb\<close>, \<open>drizzleDb\<close>, \<open>isInitialized\<close> and
  \<open>initializationPromise\<close> form the state. A connection handle is the name of the
  database file it was opened on. Calls are modelled as completed, one after the other,
  so a stored promise is a settled one.
\<close>

type_synonym handle = string

datatype promise = Fulfilled | Rejected

record client =
  sqliteDb :: "handle option"
  drizzleDb :: "handle option"
  isInitialized :: bool
  initializationPromise :: "promise option"

text \<open>
  What the outside world answers during one run of the initialisation body: whether
  \<open>SQLite.openDatabaseAsync('app.db')\<close> resolves and whether \<open>runMigrations\<close> resolves.
  Both are awaited, so a failure of either reaches the catch block after the promise
  has been assigned to \<open>initializationPromise\<close>.
\<close>

record init_env =
  open_succeeds :: bool
  migrations_succeed :: bool

definition initial_client :: client where
  "initial_client =
     \<lparr>sqliteDb = None, drizzleDb = None, isInitialized = False, initializationPromise = None\<rparr>"

definition await :: "promise \<Rightarrow> error + unit" where
  "await p = (case p of Fulfilled \<Rightarrow> Inr () | Rejected \<Rightarrow> Inl InitFailed)"

definition initializeDatabase :: "init_env \<Rightarrow> client \<Rightarrow> (error + unit) \<times> client" where
  "initializeDatabase env c =
     (case initializationPromise c of
        Some p \<Rightarrow> (await p, c)
      | None \<Rightarrow>
          if isInitialized c then (Inr (), c)
          else if open_succeeds env \<and> migrations_succeed env then
            (Inr (), c\<lparr>sqliteDb := Some ''app.db'', drizzleDb := Some ''app.db'',
                        isInitialized := True, initializationPromise := Some Fulfilled\<rparr>)
          else
            (Inl InitFailed, c\<lparr>initializationPromise := None, sqliteDb := None,
                               drizzleDb := None, isInitialized := False\<rparr>))"

definition ensureDBReady :: "client \<Rightarrow> error + unit" where
  "ensureDBReady c =
     (case (case initializationPromise c of
              Some p \<Rightarrow> if \<not> isInitialized c then await p else Inr ()
            | None \<Rightarrow> Inr ()) of
        Inl e \<Rightarrow> Inl e
      | Inr _ \<Rightarrow>
          if \<not> isInitialized c \<or> drizzleDb c = None then Inl NotReady else Inr ())"

definition getDB :: "client \<Rightarrow> error + handle" where
  "getDB c =
     (case drizzleDb c of
        None \<Rightarrow> Inl NotInitialized
      | Some db \<Rightarrow> if \<not> isInitialized c then Inl NotInitialized else Inr db)"

definition isDatabaseReady :: "client \<Rightarrow> bool" where
  "isDatabaseReady c = isInitialized c"

definition failing_migrations :: init_env where
  "failing_migrations = \<lparr>open_succeeds = True, migrations_succeed = False\<rparr>"

definition healthy_env :: init_env where
  "healthy_env = \<lparr>open_succeeds = True, migrations_succeed = True\<rparr>"

section \<open>Entity schema (db/schema.ts, db/migrations.ts)\<close>

text \<open>
  \<open>SyncStatus = 'pending' | 'synced'\<close>. The timestamp columns are TEXT and are compared as
  strings (lexicographically, as JavaScript and SQLite compare them). The REAL columns
  \<open>price\<close> and \<open>total\<close> are only stored and read back by the repositories; no arithmetic
  on them is modelled. The columns shared by both tables form the base record; \<open>row_id\<close>
  is the column \<open>id\<close>.
\<close>

datatype sync_status = Pending | Synced

type_synonym timestamp = string

record row =
  row_id :: string
  created_at :: timestamp
  updated_at :: timestamp
  deleted_at :: "timestamp option"
  sync_status :: sync_status

record product = row +
  name :: string
  price :: real

record sale = row +
  product_id :: string
  quantity :: int
  total :: real

text \<open>
  The argument of \<open>createProduct\<close> / \<open>createSale\<close>: the insert type without \<open>id\<close>,
  \<open>created_at\<close>, \<open>updated_at\<close>, \<open>deleted_at\<close> and \<open>sync_status\<close>.
\<close>

record product_input =
  in_name :: string
  in_price :: real

record sale_input =
  in_product_id :: string
  in_quantity :: int
  in_total :: real

text \<open>
  The argument of \<open>updateProduct\<close> / \<open>updateSale\<close>: \<open>Partial<Omit<E, 'id' | 'created_at' |
  'deleted_at'>>\<close>. A key that is absent is \<open>None\<close>.
\<close>

record patch =
  set_updated_at :: "timestamp option"
  set_sync_status :: "sync_status option"

record product_patch = patch +
  set_name :: "string option"
  set_price :: "real option"

record sale_patch = patch +
  set_product_id :: "string option"
  set_quantity :: "int option"
  set_total :: "real option"

text \<open>
  The persisted state: the module state of the client and the two tables of \<open>app.db\<close>.
  A table is the list of its rows; the primary key is enforced by \<open>insert_row\<close>. SQLite
  does not enforce the foreign key of \<open>sales.product_id\<close> unless \<open>PRAGMA foreign_keys\<close> is
  switched on, which the client never does.
\<close>

record world =
  client :: client
  products :: "product list"
  sales :: "sale list"

section \<open>Query building blocks (drizzle-orm over SQLite)\<close>

definition select_where :: "('r \<Rightarrow> bool) \<Rightarrow> 'r list \<Rightarrow> 'r list" where
  "select_where P t = filter P t"

definition limit :: "nat \<Rightarrow> 'r list \<Rightarrow> 'r list" where
  "limit n t = take n t"

text \<open>\<open>result[0]\<close>: \<open>undefined\<close> (here \<open>None\<close>) on an empty array.\<close>

definition first_row :: "'r list \<Rightarrow> 'r option" where
  "first_row t = (case t of [] \<Rightarrow> None | r # _ \<Rightarrow> Some r)"

definition update_where :: "('r \<Rightarrow> bool) \<Rightarrow> ('r \<Rightarrow> 'r) \<Rightarrow> 'r list \<Rightarrow> 'r list" where
  "update_where P f t = map (\<lambda>r. if P r then f r else r) t"

definition delete_where :: "('r \<Rightarrow> bool) \<Rightarrow> 'r list \<Rightarrow> 'r list" where
  "delete_where P t = filter (\<lambda>r. \<not> P r) t"

definition insert_row :: "'a row_scheme \<Rightarrow> 'a row_scheme list \<Rightarrow> error + 'a row_scheme list" where
  "insert_row r t =
     (if row_id r \<in> set (map row_id t) then Inl ConstraintFailed else Inr (t @ [r]))"

text \<open>The first two lines of every repository function: \<open>await ensureDBReady(); const db = getDB();\<close>\<close>

definition with_db :: "world \<Rightarrow> (world \<Rightarrow> (error + 'a) \<times> world) \<Rightarrow> (error + 'a) \<times> world" where
  "with_db w body =
     (case ensureDBReady (client w) of
        Inl e \<Rightarrow> (Inl e, w)
      | Inr _ \<Rightarrow>
          (case getDB (client w) of
             Inl e \<Rightarrow> (Inl e, w)
           | Inr db \<Rightarrow> body w))"

section \<open>Sales repository (repositories/sales.repo.ts)\<close>

text \<open>
  \<open>uuid\<close> is what \<open>uuid.v4()\<close> returned and \<open>db_now\<close> what SQLite's \<open>datetime('now')\<close>
  evaluates to in the INSERT; the columns the insert object leaves out take their
  defaults. \<open>now\<close> (and \<open>now_d\<close>, \<open>now_u\<close>) are the values of \<open>new Date().toISOString()\<close>,
  one per evaluation in the source.
\<close>

definition createSale :: "string \<Rightarrow> timestamp \<Rightarrow> sale_input \<Rightarrow> world \<Rightarrow> (error + sale option) \<times> world" where
  "createSale uuid db_now data w =
     with_db w (\<lambda>w.
       let newSale = \<lparr>row_id = uuid, created_at = db_now, updated_at = db_now,
                      deleted_at = None, sync_status = Pending,
                      product_id = in_product_id data, quantity = in_quantity data,
                      total = in_total data\<rparr>
       in case insert_row newSale (sales w) of
            Inl e \<Rightarrow> (Inl e, w)
          | Inr t \<Rightarrow>
              (Inr (first_row (limit 1 (select_where (\<lambda>r. row_id r = row_id newSale) t))),
               w\<lparr>sales := t\<rparr>))"

definition getAllSales :: "world \<Rightarrow> (error + sale list) \<times> world" where
  "getAllSales w =
     with_db w (\<lambda>w. (Inr (select_where (\<lambda>r. deleted_at r = None) (sales w)), w))"

definition getSaleById :: "string \<Rightarrow> bool \<Rightarrow> world \<Rightarrow> (error + sale option) \<times> world" where
  "getSaleById i includeDeleted w =
     with_db w (\<lambda>w.
       let result =
             (if includeDeleted then limit 1 (select_where (\<lambda>r. row_id r = i) (sales w))
              else limit 1 (select_where (\<lambda>r. row_id r = i \<and> deleted_at r = None) (sales w)))
       in (Inr (first_row result), w))"

definition sale_set :: "sale_patch \<Rightarrow> timestamp \<Rightarrow> sale \<Rightarrow> sale" where
  "sale_set data now r =
     (let spread = r\<lparr>product_id := (case set_product_id data of None \<Rightarrow> product_id r | Some v \<Rightarrow> v),
                      quantity := (case set_quantity data of None \<Rightarrow> quantity r | Some v \<Rightarrow> v),
                      total := (case set_total data of None \<Rightarrow> total r | Some v \<Rightarrow> v),
                      updated_at := (case set_updated_at data of None \<Rightarrow> updated_at r | Some v \<Rightarrow> v),
                      sync_status := (case set_sync_status data of None \<Rightarrow> sync_status r | Some v \<Rightarrow> v)\<rparr>
      in spread\<lparr>updated_at := now, sync_status := Pending\<rparr>)"

definition updateSale :: "timestamp \<Rightarrow> string \<Rightarrow> sale_patch \<Rightarrow> world \<Rightarrow> (error + sale) \<times> world" where
  "updateSale now i data w =
     with_db w (\<lambda>w.
       let w1 = w\<lparr>sales := update_where (\<lambda>r. row_id r = i) (sale_set data now) (sales w)\<rparr>
       in case getSaleById i False w1 of
            (Inl e, w2) \<Rightarrow> (Inl e, w2)
          | (Inr None, w2) \<Rightarrow> (Inl (NotFound i), w2)
          | (Inr (Some updated), w2) \<Rightarrow> (Inr updated, w2))"

definition deleteSale :: "timestamp \<Rightarrow> timestamp \<Rightarrow> string \<Rightarrow> world \<Rightarrow> (error + unit) \<times> world" where
  "deleteSale now_d now_u i w =
     with_db w (\<lambda>w.
       (Inr (), w\<lparr>sales := update_where (\<lambda>r. row_id r = i)
                     (\<lambda>r. r\<lparr>deleted_at := Some now_d, updated_at := now_u, sync_status := Pending\<rparr>)
                     (sales w)\<rparr>))"

definition hardDeleteSale :: "string \<Rightarrow> world \<Rightarrow> (error + unit) \<times> world" where
  "hardDeleteSale i w =
     with_db w (\<lambda>w. (Inr (), w\<lparr>sales := delete_where (\<lambda>r. row_id r = i) (sales w)\<rparr>))"

definition getUnsyncedSales :: "world \<Rightarrow> (error + sale list) \<times> world" where
  "getUnsyncedSales w =
     with_db w (\<lambda>w. (Inr (select_where (\<lambda>r. sync_status r = Pending) (sales w)), w))"

definition markSaleAsSynced :: "string \<Rightarrow> world \<Rightarrow> (error + unit) \<times> world" where
  "markSaleAsSynced i w =
     with_db w (\<lambda>w.
       (Inr (), w\<lparr>sales := update_where (\<lambda>r. row_id r = i)
                     (\<lambda>r. r\<lparr>sync_status := Synced\<rparr>) (sales w)\<rparr>))"

section \<open>Products repository (repositories/products.repo.ts)\<close>

definition createProduct :: "string \<Rightarrow> timestamp \<Rightarrow> product_input \<Rightarrow> world \<Rightarrow> (error + product option) \<times> world" where
  "createProduct uuid db_now data w =
     with_db w (\<lambda>w.
       let newProduct = \<lparr>row_id = uuid, created_at = db_now, updated_at = db_now,
                         deleted_at = None, sync_status = Pending,
                         name = in_name data, price = in_price data\<rparr>
       in case insert_row newProduct (products w) of
            Inl e \<Rightarrow> (Inl e, w)
          | Inr t \<Rightarrow>
              (Inr (first_row (limit 1 (select_where (\<lambda>r. row_id r = row_id newProduct) t))),
               w\<lparr>products := t\<rparr>))"

definition getAllProducts :: "world \<Rightarrow> (error + product list) \<times> world" where
  "getAllProducts w =
     with_db w (\<lambda>w. (Inr (select_where (\<lambda>r. deleted_at r = None) (products w)), w))"

definition getProductById :: "string \<Rightarrow> bool \<Rightarrow> world \<Rightarrow> (error + product option) \<times> world" where
  "getProductById i includeDeleted w =
     with_db w (\<lambda>w.
       let result =
             (if includeDeleted then limit 1 (select_where (\<lambda>r. row_id r = i) (products w))
              else limit 1 (select_where (\<lambda>r. row_id r = i \<and> deleted_at r = None) (products w)))
       in (Inr (first_row result), w))"

definition product_set :: "product_patch \<Rightarrow> timestamp \<Rightarrow> product \<Rightarrow> product" where
  "product_set data now r =
     (let spread = r\<lparr>name := (case set_name data of None \<Rightarrow> name r | Some v \<Rightarrow> v),
                      price := (case set_price data of None \<Rightarrow> price r | Some v \<Rightarrow> v),
                      updated_at := (case set_updated_at data of None \<Rightarrow> updated_at r | Some v \<Rightarrow> v),
                      sync_status := (case set_sync_status data of None \<Rightarrow> sync_status r | Some v \<Rightarrow> v)\<rparr>
      in spread\<lparr>updated_at := now, sync_status := Pending\<rparr>)"

definition updateProduct :: "timestamp \<Rightarrow> string \<Rightarrow> product_patch \<Rightarrow> world \<Rightarrow> (error + product) \<times> world" where
  "updateProduct now i data w =
     with_db w (\<lambda>w.
       let w1 = w\<lparr>products := update_where (\<lambda>r. row_id r = i) (product_set data now) (products w)\<rparr>
       in case getProductById i False w1 of
            (Inl e, w2) \<Rightarrow> (Inl e, w2)
          | (Inr None, w2) \<Rightarrow> (Inl (NotFound i), w2)
          | (Inr (Some updated), w2) \<Rightarrow> (Inr updated, w2))"

definition deleteProduct :: "timestamp \<Rightarrow> timestamp \<Rightarrow> string \<Rightarrow> world \<Rightarrow> (error + unit) \<times> world" where
  "deleteProduct now_d now_u i w =
     with_db w (\<lambda>w.
       (Inr (), w\<lparr>products := update_where (\<lambda>r. row_id r = i)
                     (\<lambda>r. r\<lparr>deleted_at := Some now_d, updated_at := now_u, sync_status := Pending\<rparr>)
                     (products w)\<rparr>))"

definition hardDeleteProduct :: "string \<Rightarrow> world \<Rightarrow> (error + unit) \<times> world" where
  "hardDeleteProduct i w =
     with_db w (\<lambda>w. (Inr (), w\<lparr>products := delete_where (\<lambda>r. row_id r = i) (products w)\<rparr>))"

definition getUnsyncedProducts :: "world \<Rightarrow> (error + product list) \<times> world" where
  "getUnsyncedProducts w =
     with_db w (\<lambda>w. (Inr (select_where (\<lambda>r. sync_status r = Pending) (products w)), w))"

definition markProductAsSynced :: "string \<Rightarrow> world \<Rightarrow> (error + unit) \<times> world" where
  "markProductAsSynced i w =
     with_db w (\<lambda>w.
       (Inr (), w\<lparr>products := update_where (\<lambda>r. row_id r = i)
                     (\<lambda>r. r\<lparr>sync_status := Synced\<rparr>) (products w)\<rparr>))"

section \<open>JavaScript numbers\<close>

text \<open>
  A JavaScript number is an IEEE-754 binary64 value; the finite ones are the reals
  \<open>m * 2 ^ k\<close> with \<open>|m| < 2 ^ 53\<close> and \<open>- 1074 \<le> k \<le> 971\<close>. \<open>round_double\<close> is rounding
  to the nearest such value, ties to the even significand: \<open>exponent x\<close> is
  \<open>\<lfloor>log\<^sub>2 |x|\<rfloor>\<close>, the spacing of the doubles around \<open>x\<close> is \<open>2 ^ (exponent x - 52)\<close>, and
  \<open>2 ^ (- 1074)\<close> below the normal range. A decimal literal such as \<open>9.99\<close> denotes
  \<open>round_double (999 / 100)\<close>, and \<open>x * y\<close> on numbers is \<open>round_double\<close> of the exact
  product. A result beyond the largest finite double, \<open>(2 ^ 53 - 1) * 2 ^ 971\<close>, is
  \<open>Infinity\<close> in JavaScript and has no real value: \<open>round_double\<close> stands for the
  JavaScript result up to that bound. An integer quantity is a number as it stands up to
  \<open>2 ^ 53\<close>.
\<close>

definition pow2 :: "int \<Rightarrow> real" where
  "pow2 k = (if 0 \<le> k then 2 ^ nat k else 1 / 2 ^ nat (- k))"

definition exponent :: "real \<Rightarrow> int" where
  "exponent x =
     (let a = \<bar>x\<bar>
      in if 1 \<le> a then bitlen \<lfloor>a\<rfloor> - 1 else - bitlen (\<lceil>1 / a\<rceil> - 1))"

definition round_half_even :: "real \<Rightarrow> int" where
  "round_half_even y =
     (let f = \<lfloor>y\<rfloor>; d = y - of_int f
      in if d < 1 / 2 then f
         else if 1 / 2 < d then f + 1
         else if even f then f else f + 1)"

definition round_double :: "real \<Rightarrow> real" where
  "round_double x =
     (if x = 0 then 0
      else let u = pow2 (max (exponent x) (- 1022) - 52)
           in of_int (round_half_even (x / u)) * u)"

definition number_times :: "real \<Rightarrow> real \<Rightarrow> real" where
  "number_times x y = round_double (x * y)"

section \<open>Sales service (services/sales.service.ts)\<close>

text \<open>
  The service function \<open>createSale(productId, quantity)\<close>. \<open>uuid\<close> and \<open>db_now\<close> are passed
  on to the repository. Every error raised inside the \<open>try\<close> block other than
  \<open>'Product not found'\<close> is replaced by \<open>'Failed to create sale. Please try again.'\<close>.
\<close>

definition createSale_service ::
  "string \<Rightarrow> timestamp \<Rightarrow> string \<Rightarrow> int \<Rightarrow> world \<Rightarrow> (error + sale option) \<times> world" where
  "createSale_service uuid db_now productId qty w =
     (if qty \<le> 0 then (Inl QuantityNotPositive, w)
      else case getProductById productId False w of
             (Inl e, w1) \<Rightarrow> (Inl CreateSaleFailed, w1)
           | (Inr None, w1) \<Rightarrow> (Inl ProductNotFound, w1)
           | (Inr (Some product), w1) \<Rightarrow>
               (let total = number_times (of_int qty) (price product)
                in case createSale uuid db_now
                          \<lparr>in_product_id = productId, in_quantity = qty, in_total = total\<rparr> w1 of
                     (Inl e, w2) \<Rightarrow> (Inl CreateSaleFailed, w2)
                   | (Inr sale, w2) \<Rightarrow> (Inr sale, w2)))"

section \<open>Synchronisation entry points (services/sales.service.ts, services/products.service.ts)\<close>

text \<open>
  The remote backend is part of the environment in which a synchronisation runs, like
  the clock: \<open>backend\<close> holds the server's copies of the records.

  Modelled from the spec: the answer of the remote endpoint for a record sent to it (the
  backend is not part of the repository). The endpoint answers \<open>conflicting\<close>, with its
  own copy, when it holds a version of the record with a strictly later \<open>updated_at\<close>,
  and \<open>accepted\<close> otherwise.
\<close>

record backend =
  remote_products :: "product list"
  remote_sales :: "sale list"

datatype 'r outcome = Accepted | Conflicting 'r

definition server_outcome :: "'a row_scheme list \<Rightarrow> 'a row_scheme \<Rightarrow> 'a row_scheme outcome" where
  "server_outcome copies r =
     (case find (\<lambda>c. row_id c = row_id r) copies of
        None \<Rightarrow> Accepted
      | Some c \<Rightarrow> if updated_at r < updated_at c then Conflicting c else Accepted)"

text \<open>
  Both entry points are placeholders: they log \<open>'Sync not implemented yet'\<close> and return 0.
  They call no repository function, do not wait for the database and never consult the
  backend.
\<close>

definition syncSales :: "backend \<Rightarrow> world \<Rightarrow> (error + nat) \<times> world" where
  "syncSales remote w = (Inr 0, w)"

definition syncProducts :: "backend \<Rightarrow> world \<Rightarrow> (error + nat) \<times> world" where
  "syncProducts remote w = (Inr 0, w)"

section \<open>A concrete shop\<close>

text \<open>
  The state used to run the operations on concrete inputs: an initialised client, an
  active product and a soft-deleted one, an active sale and a soft-deleted one. All four
  rows have already been synchronised.
\<close>

definition ready_client :: client where
  "ready_client =
     \<lparr>sqliteDb = Some ''app.db'', drizzleDb = Some ''app.db'', isInitialized = True,
      initializationPromise = Some Fulfilled\<rparr>"

definition widget :: product where
  "widget =
     \<lparr>row_id = ''p1'', created_at = ''2024-05-01 09:00:00'', updated_at = ''2024-05-01 09:00:00'',
      deleted_at = None, sync_status = Synced, name = ''Widget'', price = 10\<rparr>"

definition gadget :: product where
  "gadget =
     \<lparr>row_id = ''p2'', created_at = ''2024-05-01 09:30:00'',
      updated_at = ''2024-05-02T08:00:00.000Z'',
      deleted_at = Some ''2024-05-02T08:00:00.000Z'', sync_status = Synced,
      name = ''Gadget'', price = 4\<rparr>"

definition sale_a :: sale where
  "sale_a =
     \<lparr>row_id = ''s1'', created_at = ''2024-05-01 10:00:00'', updated_at = ''2024-05-01 10:00:00'',
      deleted_at = None, sync_status = Synced, product_id = ''p1'', quantity = 3, total = 30\<rparr>"

definition sale_b :: sale where
  "sale_b =
     \<lparr>row_id = ''s2'', created_at = ''2024-05-01 11:00:00'',
      updated_at = ''2024-05-02T08:30:00.000Z'',
      deleted_at = Some ''2024-05-02T08:30:00.000Z'', sync_status = Synced,
      product_id = ''p1'', quantity = 1, total = 10\<rparr>"

definition shop :: world where
  "shop = \<lparr>client = ready_client, products = [widget, gadget], sales = [sale_a, sale_b]\<rparr>"

definition more_quantity :: sale_patch where
  "more_quantity =
     \<lparr>set_updated_at = None, set_sync_status = None, set_product_id = None,
      set_quantity = Some 7, set_total = Some 70\<rparr>"

definition new_price :: product_patch where
  "new_price =
     \<lparr>set_updated_at = None, set_sync_status = None, set_name = None, set_price = Some 5\<rparr>"

text \<open>
  The same shop after local edits that have not been synchronised: the widget was
  repriced, sale \<open>s1\<close> was changed to five units and sale \<open>s2\<close> was soft-deleted again
  locally. \<open>server_sale\<close> is the copy of \<open>s1\<close> a server would hold after a later edit
  elsewhere.
\<close>

definition local_widget :: product where
  "local_widget = widget\<lparr>price := 12, updated_at := ''2024-05-04T09:00:00.000Z'',
                          sync_status := Pending\<rparr>"

definition local_sale :: sale where
  "local_sale = sale_a\<lparr>quantity := 5, total := 50, updated_at := ''2024-05-04T10:00:00.000Z'',
                        sync_status := Pending\<rparr>"

definition server_sale :: sale where
  "server_sale = sale_a\<lparr>quantity := 9, total := 90, updated_at := ''2024-05-04T12:00:00.000Z'',
                         sync_status := Synced\<rparr>"

definition unsynced_shop :: world where
  "unsynced_shop =
     \<lparr>client = ready_client, products = [local_widget, gadget],
      sales = [local_sale, sale_b\<lparr>sync_status := Pending\<rparr>]\<rparr>"

definition gizmo :: product_input where
  "gizmo = \<lparr>in_name = ''Gizmo'', in_price = 25\<rparr>"

definition two_widgets :: sale_input where
  "two_widgets = \<lparr>in_product_id = ''p1'', in_quantity = 2, in_total = 20\<rparr>"

text \<open>Update arguments that also carry an old \<open>updated_at\<close> and \<open>sync_status = synced\<close>.\<close>

definition backdated_sale_patch :: sale_patch where
  "backdated_sale_patch =
     \<lparr>set_updated_at = Some ''2000-01-01T00:00:00.000Z'', set_sync_status = Some Synced,
      set_product_id = None, set_quantity = Some 7, set_total = Some 70\<rparr>"

definition backdated_product_patch :: product_patch where
  "backdated_product_patch =
     \<lparr>set_updated_at = Some ''2000-01-01T00:00:00.000Z'', set_sync_status = Some Synced,
      set_name = Some ''Widget XL'', set_price = None\<rparr>"

text \<open>
  A backend that holds \<open>server_sale\<close>, and a later version of the widget; a shop with a
  product priced \<open>9.99\<close>.
\<close>

definition server_widget :: product where
  "server_widget = widget\<lparr>price := 15, updated_at := ''2024-05-04T12:30:00.000Z''\<rparr>"

definition busy_backend :: backend where
  "busy_backend = \<lparr>remote_products = [server_widget], remote_sales = [server_sale]\<rparr>"

definition pen :: product where
  "pen =
     \<lparr>row_id = ''p4'', created_at = ''2024-05-01 09:45:00'', updated_at = ''2024-05-01 09:45:00'',
      deleted_at = None, sync_status = Synced, name = ''Pen'',
      price = round_double (999 / 100)\<rparr>"

definition pen_shop :: world where
  "pen_shop = \<lparr>client = ready_client, products = [widget, gadget, pen], sales = [sale_a, sale_b]\<rparr>"

section \<open>Unfolding rules and facts about the query building blocks\<close>

lemmas shop_defs = shop_def ready_client_def widget_def gadget_def sale_a_def sale_b_def
  more_quantity_def new_price_def local_widget_def local_sale_def server_sale_def
  unsynced_shop_def gizmo_def two_widgets_def backdated_sale_patch_def
  backdated_product_patch_def server_widget_def busy_backend_def pen_def pen_shop_def

lemmas op_defs = with_db_def ensureDBReady_def getDB_def await_def select_where_def limit_def
  first_row_def update_where_def delete_where_def insert_row_def

lemma ready_facts:
  "ensureDBReady c = Inr () \<Longrightarrow> isInitialized c \<and> drizzleDb c \<noteq> None"
  by (auto simp: ensureDBReady_def await_def split: option.splits sum.splits if_splits promise.splits)

lemma with_db_ready: "ensureDBReady (client w) = Inr () \<Longrightarrow> with_db w body = body w"
  using ready_facts [of "client w"]
  by (auto simp: with_db_def getDB_def split: option.splits)

lemma with_db_not_ready: "ensureDBReady (client w) = Inl e \<Longrightarrow> with_db w body = (Inl e, w)"
  by (simp add: with_db_def)

lemma first_row_limit_select: "first_row (limit (Suc n) (select_where P t)) = find P t"
  by (induction t) (simp_all add: first_row_def limit_def select_where_def)

lemma find_update_where_same:
  assumes "\<And>r. row_id (f r) = row_id r"
  shows "find (\<lambda>r. row_id r = i) (update_where (\<lambda>r. row_id r = i) f t)
         = map_option f (find (\<lambda>r. row_id r = i) t)"
  using assms by (induction t) (simp_all add: update_where_def)

lemma find_update_where_other:
  assumes "\<And>r. row_id (f r) = row_id r" and "j \<noteq> i"
  shows "find (\<lambda>r. row_id r = j) (update_where (\<lambda>r. row_id r = i) f t)
         = find (\<lambda>r. row_id r = j) t"
  using assms by (induction t) (simp_all add: update_where_def)

lemma update_where_no_match:
  "i \<notin> set (map row_id t) \<Longrightarrow> update_where (\<lambda>r. row_id r = i) f t = t"
  by (induction t) (auto simp: update_where_def)

lemma delete_where_no_match:
  "i \<notin> set (map row_id t) \<Longrightarrow> delete_where (\<lambda>r. row_id r = i) t = t"
  by (induction t) (auto simp: delete_where_def)

lemma find_append_fresh:
  "row_id r = i \<Longrightarrow> i \<notin> set (map row_id t) \<Longrightarrow> find (\<lambda>x. row_id x = i) (t @ [r]) = Some r"
  by (induction t) auto

lemma find_active_append_fresh:
  "row_id r = i \<Longrightarrow> deleted_at r = None \<Longrightarrow> i \<notin> set (map row_id t) \<Longrightarrow>
   find (\<lambda>x. row_id x = i \<and> deleted_at x = None) (t @ [r]) = Some r"
  by (induction t) auto

lemma getSaleById_ready:
  "ensureDBReady (client w) = Inr () \<Longrightarrow>
   getSaleById i incl w =
     (Inr (if incl then find (\<lambda>r. row_id r = i) (sales w)
           else find (\<lambda>r. row_id r = i \<and> deleted_at r = None) (sales w)), w)"
  by (simp add: getSaleById_def with_db_ready first_row_limit_select)

lemma getProductById_ready:
  "ensureDBReady (client w) = Inr () \<Longrightarrow>
   getProductById i incl w =
     (Inr (if incl then find (\<lambda>r. row_id r = i) (products w)
           else find (\<lambda>r. row_id r = i \<and> deleted_at r = None) (products w)), w)"
  by (simp add: getProductById_def with_db_ready first_row_limit_select)

section \<open>Operations on an id that matches no row\<close>

text \<open>
  Claim C10. Once the database is ready, \<open>deleteSale\<close>, \<open>markSaleAsSynced\<close> and
  \<open>hardDeleteSale\<close> called with an id that matches no row of the table return normally
  (no error, in particular no \<open>NotFound\<close>) and leave the whole state as it was. The
  product repository behaves the same way.
\<close>


theorem missing_id_is_silent_no_op:
  assumes "ensureDBReady (client w) = Inr ()"
  shows "(i \<notin> set (map row_id (sales w)) \<longrightarrow>
            deleteSale now_d now_u i w = (Inr (), w) \<and>
            markSaleAsSynced i w = (Inr (), w) \<and>
            hardDeleteSale i w = (Inr (), w)) \<and>
         (i \<notin> set (map row_id (products w)) \<longrightarrow>
            deleteProduct now_d now_u i w = (Inr (), w) \<and>
            markProductAsSynced i w = (Inr (), w) \<and>
            hardDeleteProduct i w = (Inr (), w))"
  using assms
  by (simp add: deleteSale_def markSaleAsSynced_def hardDeleteSale_def deleteProduct_def
      markProductAsSynced_def hardDeleteProduct_def with_db_ready update_where_no_match
      delete_where_no_match)

theorem missing_id_is_silent_no_op_witness:
  "ensureDBReady (client shop) = Inr () \<and>
   ''s9'' \<notin> set (map row_id (sales shop)) \<and>
   ''s9'' \<notin> set (map row_id (products shop)) \<and>
   deleteSale ''2024-05-03T10:00:00.000Z'' ''2024-05-03T10:00:00.001Z'' ''s9'' shop = (Inr (), shop) \<and>
   markSaleAsSynced ''s9'' shop = (Inr (), shop) \<and>
   hardDeleteSale ''s9'' shop = (Inr (), shop) \<and>
   deleteProduct ''2024-05-03T10:00:00.000Z'' ''2024-05-03T10:00:00.001Z'' ''s9'' shop = (Inr (), shop) \<and>
   markProductAsSynced ''s9'' shop = (Inr (), shop) \<and>
   hardDeleteProduct ''s9'' shop = (Inr (), shop)"
proof -
  have ready: "ensureDBReady (client shop) = Inr ()"
    by (simp add: shop_defs ensureDBReady_def await_def)
  have s: "''s9'' \<notin> set (map row_id (sales shop))"
    by (simp add: shop_defs)
  have p: "''s9'' \<notin> set (map row_id (products shop))"
    by (simp add: shop_defs)
  show ?thesis
    using ready s p
      missing_id_is_silent_no_op [OF ready, of "''s9''" "''2024-05-03T10:00:00.000Z''"
        "''2024-05-03T10:00:00.001Z''"]
    by simp
qed

section \<open>Storage engine: failure and retry\<close>

text \<open>
  No call stores a rejected promise: the catch block clears \<open>initializationPromise\<close>
  before the rejection, and the initial state holds none.
\<close>

lemma initializeDatabase_keeps_unrejected:
  "initializationPromise c \<noteq> Some Rejected \<Longrightarrow>
   initializationPromise (snd (initializeDatabase env c)) \<noteq> Some Rejected"
  by (auto simp: initializeDatabase_def split: option.splits)

lemma initial_client_not_ready: "ensureDBReady initial_client = Inl NotReady"
  by (simp add: ensureDBReady_def initial_client_def)

lemma failed_initialization_state:
  assumes "initializationPromise c \<noteq> Some Rejected"
    and "fst (initializeDatabase env c) = Inl e"
  shows "initializeDatabase env c = (Inl InitFailed, initial_client)"
  using assms
  by (cases "initializationPromise c")
     (auto simp: initializeDatabase_def initial_client_def await_def
           split: if_splits promise.splits)

lemma initializeDatabase_from_initial:
  "initializeDatabase env initial_client =
     (if open_succeeds env \<and> migrations_succeed env then (Inr (), ready_client)
      else (Inl InitFailed, initial_client))"
  by (simp add: initializeDatabase_def initial_client_def ready_client_def)

lemma ready_client_ready: "ensureDBReady ready_client = Inr ()"
  by (simp add: ensureDBReady_def ready_client_def)

text \<open>
  Claim C3, as the code has it. A failed \<open>initializeDatabase\<close> puts the four module
  variables back to their initial values ("Reset state so retry is possible"). In that
  state \<open>ensureDBReady\<close> fails; a further \<open>initializeDatabase\<close> runs the open-and-migrate
  sequence again, and the engine is ready when that run succeeds, and is back in the
  uninitialised state when it fails again.
\<close>

theorem failed_initialization_can_be_retried:
  assumes "initializationPromise c \<noteq> Some Rejected"
    and "fst (initializeDatabase env c) = Inl e"
  shows "snd (initializeDatabase env c) = initial_client \<and>
         ensureDBReady (snd (initializeDatabase env c)) = Inl NotReady \<and>
         (open_succeeds env' \<and> migrations_succeed env' \<longrightarrow>
            fst (initializeDatabase env' (snd (initializeDatabase env c))) = Inr () \<and>
            ensureDBReady (snd (initializeDatabase env' (snd (initializeDatabase env c)))) = Inr ()) \<and>
         (\<not> (open_succeeds env' \<and> migrations_succeed env') \<longrightarrow>
            fst (initializeDatabase env' (snd (initializeDatabase env c))) = Inl InitFailed \<and>
            ensureDBReady (snd (initializeDatabase env' (snd (initializeDatabase env c)))) = Inl NotReady)"
proof -
  have st: "initializeDatabase env c = (Inl InitFailed, initial_client)"
    using assms by (rule failed_initialization_state)
  show ?thesis
    by (simp add: st initializeDatabase_from_initial ready_client_ready initial_client_not_ready)
qed

theorem failed_initialization_can_be_retried_witness:
  "initializationPromise initial_client \<noteq> Some Rejected \<and>
   fst (initializeDatabase failing_migrations initial_client) = Inl InitFailed \<and>
   open_succeeds healthy_env \<and> migrations_succeed healthy_env \<and>
   \<not> (open_succeeds failing_migrations \<and> migrations_succeed failing_migrations) \<and>
   snd (initializeDatabase failing_migrations initial_client) = initial_client \<and>
   ensureDBReady (snd (initializeDatabase failing_migrations initial_client)) = Inl NotReady \<and>
   fst (initializeDatabase healthy_env (snd (initializeDatabase failing_migrations initial_client)))
     = Inr () \<and>
   ensureDBReady
     (snd (initializeDatabase healthy_env (snd (initializeDatabase failing_migrations initial_client))))
     = Inr () \<and>
   fst (initializeDatabase failing_migrations
         (snd (initializeDatabase failing_migrations initial_client)))
     = Inl InitFailed \<and>
   ensureDBReady
     (snd (initializeDatabase failing_migrations
            (snd (initializeDatabase failing_migrations initial_client))))
     = Inl NotReady"
proof -
  have h1: "initializationPromise initial_client \<noteq> Some Rejected"
    by (simp add: initial_client_def)
  have h2: "fst (initializeDatabase failing_migrations initial_client) = Inl InitFailed"
    by (simp add: initializeDatabase_def initial_client_def failing_migrations_def)
  have h3: "open_succeeds healthy_env \<and> migrations_succeed healthy_env"
    by (simp add: healthy_env_def)
  have h4: "\<not> (open_succeeds failing_migrations \<and> migrations_succeed failing_migrations)"
    by (simp add: failing_migrations_def)
  show ?thesis
    using h1 h2 h3 h4
      failed_initialization_can_be_retried [OF h1 h2, of healthy_env]
      failed_initialization_can_be_retried [OF h1 h2, of failing_migrations]
    by blast
qed

text \<open>
  Claim C3 as stated fails: starting from the state at process start, a first
  initialisation whose migrations fail is followed by a second one that succeeds, after
  which the readiness wait succeeds, all within one process.
\<close>

theorem engine_ready_after_failed_initialization:
  "fst (initializeDatabase failing_migrations initial_client) = Inl InitFailed \<and>
   fst (initializeDatabase healthy_env (snd (initializeDatabase failing_migrations initial_client)))
     = Inr () \<and>
   ensureDBReady
     (snd (initializeDatabase healthy_env (snd (initializeDatabase failing_migrations initial_client))))
     = Inr ()"
  by (simp add: initializeDatabase_def ensureDBReady_def initial_client_def
      failing_migrations_def healthy_env_def)

section \<open>Pending rows\<close>

lemma unsynced_shop_ready: "ensureDBReady (client unsynced_shop) = Inr ()"
  by (simp add: unsynced_shop_def ready_client_ready)

lemma shop_ready: "ensureDBReady (client shop) = Inr ()"
  by (simp add: shop_def ready_client_ready)

text \<open>
  Claim C6. With the database ready, \<open>getUnsyncedSales\<close> / \<open>getUnsyncedProducts\<close> return
  exactly the rows whose \<open>sync_status\<close> is \<open>pending\<close>: the active pending rows together
  with the soft-deleted pending rows, and no row that is \<open>synced\<close>. The state is not
  changed.
\<close>

theorem getPending_is_exactly_the_pending_rows:
  assumes "ensureDBReady (client w) = Inr ()"
  shows "(\<exists>rs. getUnsyncedSales w = (Inr rs, w) \<and>
            set rs = {r \<in> set (sales w). sync_status r = Pending} \<and>
            set rs = {r \<in> set (sales w). deleted_at r = None \<and> sync_status r = Pending} \<union>
                     {r \<in> set (sales w). deleted_at r \<noteq> None \<and> sync_status r = Pending} \<and>
            (\<forall>r \<in> set rs. sync_status r \<noteq> Synced)) \<and>
         (\<exists>ps. getUnsyncedProducts w = (Inr ps, w) \<and>
            set ps = {r \<in> set (products w). sync_status r = Pending} \<and>
            set ps = {r \<in> set (products w). deleted_at r = None \<and> sync_status r = Pending} \<union>
                     {r \<in> set (products w). deleted_at r \<noteq> None \<and> sync_status r = Pending} \<and>
            (\<forall>r \<in> set ps. sync_status r \<noteq> Synced))"
proof (intro conjI)
  show "\<exists>rs. getUnsyncedSales w = (Inr rs, w) \<and>
            set rs = {r \<in> set (sales w). sync_status r = Pending} \<and>
            set rs = {r \<in> set (sales w). deleted_at r = None \<and> sync_status r = Pending} \<union>
                     {r \<in> set (sales w). deleted_at r \<noteq> None \<and> sync_status r = Pending} \<and>
            (\<forall>r \<in> set rs. sync_status r \<noteq> Synced)"
    using assms by (auto simp: getUnsyncedSales_def with_db_ready select_where_def)
  show "\<exists>ps. getUnsyncedProducts w = (Inr ps, w) \<and>
            set ps = {r \<in> set (products w). sync_status r = Pending} \<and>
            set ps = {r \<in> set (products w). deleted_at r = None \<and> sync_status r = Pending} \<union>
                     {r \<in> set (products w). deleted_at r \<noteq> None \<and> sync_status r = Pending} \<and>
            (\<forall>r \<in> set ps. sync_status r \<noteq> Synced)"
    using assms by (auto simp: getUnsyncedProducts_def with_db_ready select_where_def)
qed

theorem getPending_is_exactly_the_pending_rows_witness:
  "ensureDBReady (client unsynced_shop) = Inr () \<and>
   getUnsyncedSales unsynced_shop =
     (Inr [local_sale, sale_b\<lparr>sync_status := Pending\<rparr>], unsynced_shop) \<and>
   getUnsyncedProducts unsynced_shop = (Inr [local_widget], unsynced_shop) \<and>
   (\<exists>rs. getUnsyncedSales unsynced_shop = (Inr rs, unsynced_shop) \<and>
      set rs = {r \<in> set (sales unsynced_shop). sync_status r = Pending} \<and>
      (\<forall>r \<in> set rs. sync_status r \<noteq> Synced)) \<and>
   (\<exists>ps. getUnsyncedProducts unsynced_shop = (Inr ps, unsynced_shop) \<and>
      set ps = {r \<in> set (products unsynced_shop). sync_status r = Pending} \<and>
      (\<forall>r \<in> set ps. sync_status r \<noteq> Synced))"
proof -
  have s: "getUnsyncedSales unsynced_shop =
     (Inr [local_sale, sale_b\<lparr>sync_status := Pending\<rparr>], unsynced_shop)"
    by (simp add: getUnsyncedSales_def with_db_ready unsynced_shop_ready select_where_def)
       (simp add: shop_defs)
  have p: "getUnsyncedProducts unsynced_shop = (Inr [local_widget], unsynced_shop)"
    by (simp add: getUnsyncedProducts_def with_db_ready unsynced_shop_ready select_where_def)
       (simp add: shop_defs)
  show ?thesis
    using s p unsynced_shop_ready
      getPending_is_exactly_the_pending_rows [OF unsynced_shop_ready]
    by blast
qed

section \<open>Marking a record as synced\<close>

lemma markSaleAsSynced_ready:
  "ensureDBReady (client w) = Inr () \<Longrightarrow>
   markSaleAsSynced i w =
     (Inr (), w\<lparr>sales := update_where (\<lambda>r. row_id r = i) (\<lambda>r. r\<lparr>sync_status := Synced\<rparr>) (sales w)\<rparr>)"
  by (simp add: markSaleAsSynced_def with_db_ready)

lemma markProductAsSynced_ready:
  "ensureDBReady (client w) = Inr () \<Longrightarrow>
   markProductAsSynced i w =
     (Inr (), w\<lparr>products := update_where (\<lambda>r. row_id r = i) (\<lambda>r. r\<lparr>sync_status := Synced\<rparr>) (products w)\<rparr>)"
  by (simp add: markProductAsSynced_def with_db_ready)

text \<open>
  Claim C7. With the database ready, for a record present in the table (found by id,
  soft-deleted or not), \<open>markSaleAsSynced\<close> / \<open>markProductAsSynced\<close> succeed and the
  record read back afterwards is the old record with \<open>sync_status\<close> set to \<open>synced\<close>:
  every other field, \<open>updated_at\<close> included, is as before.
\<close>

theorem markSynced_changes_only_sync_status:
  assumes "ensureDBReady (client w) = Inr ()"
  shows "(fst (getSaleById i True w) = Inr (Some s) \<longrightarrow>
            fst (markSaleAsSynced i w) = Inr () \<and>
            fst (getSaleById i True (snd (markSaleAsSynced i w)))
              = Inr (Some (s\<lparr>sync_status := Synced\<rparr>))) \<and>
         (fst (getProductById j True w) = Inr (Some p) \<longrightarrow>
            fst (markProductAsSynced j w) = Inr () \<and>
            fst (getProductById j True (snd (markProductAsSynced j w)))
              = Inr (Some (p\<lparr>sync_status := Synced\<rparr>)))"
  using assms
  by (simp add: markSaleAsSynced_ready markProductAsSynced_ready getSaleById_ready
      getProductById_ready find_update_where_same)

theorem markSynced_changes_only_sync_status_witness:
  "ensureDBReady (client unsynced_shop) = Inr () \<and>
   fst (getSaleById ''s1'' True unsynced_shop) = Inr (Some local_sale) \<and>
   fst (getProductById ''p1'' True unsynced_shop) = Inr (Some local_widget) \<and>
   fst (markSaleAsSynced ''s1'' unsynced_shop) = Inr () \<and>
   fst (getSaleById ''s1'' True (snd (markSaleAsSynced ''s1'' unsynced_shop)))
     = Inr (Some (local_sale\<lparr>sync_status := Synced\<rparr>)) \<and>
   fst (markProductAsSynced ''p1'' unsynced_shop) = Inr () \<and>
   fst (getProductById ''p1'' True (snd (markProductAsSynced ''p1'' unsynced_shop)))
     = Inr (Some (local_widget\<lparr>sync_status := Synced\<rparr>))"
proof -
  have s: "fst (getSaleById ''s1'' True unsynced_shop) = Inr (Some local_sale)"
    by (simp add: getSaleById_ready unsynced_shop_ready) (simp add: shop_defs)
  have p: "fst (getProductById ''p1'' True unsynced_shop) = Inr (Some local_widget)"
    by (simp add: getProductById_ready unsynced_shop_ready) (simp add: shop_defs)
  show ?thesis
    using s p unsynced_shop_ready
      markSynced_changes_only_sync_status [OF unsynced_shop_ready,
        where i = "''s1''" and s = local_sale and j = "''p1''" and p = local_widget]
    by blast
qed

section \<open>Synchronisation\<close>

text \<open>
  Claim C8, as the code has it. \<open>syncSales\<close> and \<open>syncProducts\<close> are placeholders:
  whatever the server holds, a call returns 0, raises no error and leaves the local state
  exactly as it was. In particular a local record for which the server would answer
  \<open>conflicting\<close> keeps its own fields and its \<open>sync_status\<close>: it is not overwritten with
  the server's copy and not marked synced.
\<close>

theorem sync_placeholders_change_no_record:
  "fst (syncSales remote w) = Inr 0 \<and> snd (syncSales remote w) = w \<and>
   fst (syncProducts remote w) = Inr 0 \<and> snd (syncProducts remote w) = w \<and>
   (fst (getSaleById i True w) = Inr (Some s) \<and>
    server_outcome (remote_sales remote) s = Conflicting c \<longrightarrow>
      fst (getSaleById i True (snd (syncSales remote w))) = Inr (Some s)) \<and>
   (fst (getProductById j True w) = Inr (Some p) \<and>
    server_outcome (remote_products remote) p = Conflicting d \<longrightarrow>
      fst (getProductById j True (snd (syncProducts remote w))) = Inr (Some p))"
  by (simp add: syncSales_def syncProducts_def)

lemma local_sale_found: "fst (getSaleById ''s1'' True unsynced_shop) = Inr (Some local_sale)"
  by (simp add: getSaleById_ready unsynced_shop_ready) (simp add: shop_defs)

lemma local_widget_found:
  "fst (getProductById ''p1'' True unsynced_shop) = Inr (Some local_widget)"
  by (simp add: getProductById_ready unsynced_shop_ready) (simp add: shop_defs)

lemma server_reports_sale_conflict:
  "server_outcome (remote_sales busy_backend) local_sale = Conflicting server_sale"
  by (simp add: server_outcome_def shop_defs)

lemma server_reports_widget_conflict:
  "server_outcome (remote_products busy_backend) local_widget = Conflicting server_widget"
  by (simp add: server_outcome_def shop_defs)

theorem sync_placeholders_change_no_record_witness:
  "fst (getSaleById ''s1'' True unsynced_shop) = Inr (Some local_sale) \<and>
   server_outcome (remote_sales busy_backend) local_sale = Conflicting server_sale \<and>
   fst (getProductById ''p1'' True unsynced_shop) = Inr (Some local_widget) \<and>
   server_outcome (remote_products busy_backend) local_widget = Conflicting server_widget \<and>
   fst (syncSales busy_backend unsynced_shop) = Inr 0 \<and>
   fst (getSaleById ''s1'' True (snd (syncSales busy_backend unsynced_shop)))
     = Inr (Some local_sale) \<and>
   fst (syncProducts busy_backend unsynced_shop) = Inr 0 \<and>
   fst (getProductById ''p1'' True (snd (syncProducts busy_backend unsynced_shop)))
     = Inr (Some local_widget)"
  using local_sale_found server_reports_sale_conflict local_widget_found
    server_reports_widget_conflict
    sync_placeholders_change_no_record [where remote = busy_backend and w = unsynced_shop
      and i = "''s1''" and s = local_sale and c = server_sale
      and j = "''p1''" and p = local_widget and d = server_widget]
  by blast

text \<open>
  Claim C8 as stated fails. The local sale \<open>s1\<close> is pending and part of the pending
  batch; the server holds a version of it with a strictly later \<open>updated_at\<close> and another
  quantity, so its answer for \<open>s1\<close> is \<open>conflicting\<close>. After \<open>syncSales\<close> the local record
  still has its own fields, is not the server's copy marked synced, and is still in the
  pending batch.
\<close>

theorem sync_leaves_conflicting_record_pending:
  "fst (getUnsyncedSales unsynced_shop) = Inr [local_sale, sale_b\<lparr>sync_status := Pending\<rparr>] \<and>
   server_outcome (remote_sales busy_backend) local_sale = Conflicting server_sale \<and>
   updated_at local_sale < updated_at server_sale \<and>
   fst (syncSales busy_backend unsynced_shop) = Inr 0 \<and>
   fst (getSaleById ''s1'' True (snd (syncSales busy_backend unsynced_shop)))
     = Inr (Some local_sale) \<and>
   fst (getSaleById ''s1'' True (snd (syncSales busy_backend unsynced_shop)))
     \<noteq> Inr (Some (server_sale\<lparr>sync_status := Synced\<rparr>)) \<and>
   sync_status local_sale = Pending \<and>
   quantity local_sale = 5 \<and> quantity server_sale = 9 \<and>
   fst (getUnsyncedSales (snd (syncSales busy_backend unsynced_shop)))
     = Inr [local_sale, sale_b\<lparr>sync_status := Pending\<rparr>]"
proof -
  have u: "fst (getUnsyncedSales unsynced_shop) = Inr [local_sale, sale_b\<lparr>sync_status := Pending\<rparr>]"
    by (simp add: getUnsyncedSales_def with_db_ready unsynced_shop_ready select_where_def)
       (simp add: shop_defs)
  have d: "local_sale \<noteq> server_sale\<lparr>sync_status := Synced\<rparr>"
    by (simp add: shop_defs)
  have rest: "updated_at local_sale < updated_at server_sale \<and> sync_status local_sale = Pending \<and>
      quantity local_sale = 5 \<and> quantity server_sale = 9"
    by (simp add: shop_defs)
  show ?thesis
    using u d rest local_sale_found server_reports_sale_conflict
    by (simp add: syncSales_def)
qed

section \<open>Update\<close>

lemma find_active_update_where:
  assumes "\<And>r. row_id (f r) = row_id r" and "\<And>r. deleted_at (f r) = deleted_at r"
  shows "find (\<lambda>r. row_id r = i \<and> deleted_at r = None) (update_where (\<lambda>r. row_id r = i) f t)
         = map_option f (find (\<lambda>r. row_id r = i \<and> deleted_at r = None) t)"
  using assms by (induction t) (auto simp: update_where_def)

lemma sale_set_keeps [simp]:
  "row_id (sale_set data now r) = row_id r"
  "deleted_at (sale_set data now r) = deleted_at r"
  "created_at (sale_set data now r) = created_at r"
  "updated_at (sale_set data now r) = now"
  "sync_status (sale_set data now r) = Pending"
  by (simp_all add: sale_set_def)

lemma product_set_keeps [simp]:
  "row_id (product_set data now r) = row_id r"
  "deleted_at (product_set data now r) = deleted_at r"
  "created_at (product_set data now r) = created_at r"
  "updated_at (product_set data now r) = now"
  "sync_status (product_set data now r) = Pending"
  by (simp_all add: product_set_def)

lemma updateSale_ready:
  assumes "ensureDBReady (client w) = Inr ()"
  shows "updateSale now i data w =
     (case find (\<lambda>r. row_id r = i \<and> deleted_at r = None) (sales w) of
        None \<Rightarrow> Inl (NotFound i)
      | Some r \<Rightarrow> Inr (sale_set data now r),
      w\<lparr>sales := update_where (\<lambda>r. row_id r = i) (sale_set data now) (sales w)\<rparr>)"
  using assms
  by (simp add: updateSale_def with_db_ready getSaleById_ready find_active_update_where
      split: option.splits)

lemma updateProduct_ready:
  assumes "ensureDBReady (client w) = Inr ()"
  shows "updateProduct now i data w =
     (case find (\<lambda>r. row_id r = i \<and> deleted_at r = None) (products w) of
        None \<Rightarrow> Inl (NotFound i)
      | Some r \<Rightarrow> Inr (product_set data now r),
      w\<lparr>products := update_where (\<lambda>r. row_id r = i) (product_set data now) (products w)\<rparr>)"
  using assms
  by (simp add: updateProduct_def with_db_ready getProductById_ready find_active_update_where
      split: option.splits)

text \<open>
  With the database ready, an update fails with \<open>NotFound\<close> when no active record has
  the id, and when no row at all has the id the state is left as it was.
\<close>

lemma update_without_active_record_fails:
  assumes "ensureDBReady (client w) = Inr ()"
  shows "fst (getSaleById i False w) = Inr None \<Longrightarrow>
           fst (updateSale now i sd w) = Inl (NotFound i)"
    and "fst (getProductById i False w) = Inr None \<Longrightarrow>
           fst (updateProduct now i pd w) = Inl (NotFound i)"
  using assms
  by (simp_all add: updateSale_ready updateProduct_ready getSaleById_ready getProductById_ready)

lemma update_of_missing_id_changes_nothing:
  assumes "ensureDBReady (client w) = Inr ()"
  shows "i \<notin> set (map row_id (sales w)) \<Longrightarrow> snd (updateSale now i sd w) = w"
    and "i \<notin> set (map row_id (products w)) \<Longrightarrow> snd (updateProduct now i pd w) = w"
  using assms
  by (simp_all add: updateSale_ready updateProduct_ready update_where_no_match)

text \<open>
  Claim C1 at a soft-deleted record. Sale \<open>s2\<close> and product \<open>p2\<close> are soft-deleted, so no
  active record matches. \<open>updateSale\<close> / \<open>updateProduct\<close> fail with \<open>NotFound\<close>, but the
  UPDATE statement, whose WHERE clause tests the id only, has already rewritten the
  soft-deleted row: the new field values, \<open>updated_at\<close> and \<open>sync_status = pending\<close> are
  stored, and the state after the failed call differs from the state before.
\<close>

theorem update_of_soft_deleted_record_writes_then_fails:
  "fst (getSaleById ''s2'' False shop) = Inr None \<and>
   updateSale ''2024-05-03T10:00:00.000Z'' ''s2'' more_quantity shop =
     (Inl (NotFound ''s2''),
      shop\<lparr>sales := [sale_a, sale_b\<lparr>quantity := 7, total := 70,
                                     updated_at := ''2024-05-03T10:00:00.000Z'',
                                     sync_status := Pending\<rparr>]\<rparr>) \<and>
   snd (updateSale ''2024-05-03T10:00:00.000Z'' ''s2'' more_quantity shop) \<noteq> shop \<and>
   fst (getProductById ''p2'' False shop) = Inr None \<and>
   updateProduct ''2024-05-03T10:00:00.000Z'' ''p2'' new_price shop =
     (Inl (NotFound ''p2''),
      shop\<lparr>products := [widget, gadget\<lparr>price := 5,
                                         updated_at := ''2024-05-03T10:00:00.000Z'',
                                         sync_status := Pending\<rparr>]\<rparr>) \<and>
   snd (updateProduct ''2024-05-03T10:00:00.000Z'' ''p2'' new_price shop) \<noteq> shop"
  by (simp add: updateSale_ready updateProduct_ready getSaleById_ready getProductById_ready
      shop_ready)
     (simp add: shop_defs update_where_def sale_set_def product_set_def)

section \<open>Soft delete\<close>

lemma deleteSale_ready:
  "ensureDBReady (client w) = Inr () \<Longrightarrow>
   deleteSale now_d now_u i w =
     (Inr (), w\<lparr>sales := update_where (\<lambda>r. row_id r = i)
                   (\<lambda>r. r\<lparr>deleted_at := Some now_d, updated_at := now_u, sync_status := Pending\<rparr>)
                   (sales w)\<rparr>)"
  by (simp add: deleteSale_def with_db_ready)

lemma deleteProduct_ready:
  "ensureDBReady (client w) = Inr () \<Longrightarrow>
   deleteProduct now_d now_u i w =
     (Inr (), w\<lparr>products := update_where (\<lambda>r. row_id r = i)
                   (\<lambda>r. r\<lparr>deleted_at := Some now_d, updated_at := now_u, sync_status := Pending\<rparr>)
                   (products w)\<rparr>)"
  by (simp add: deleteProduct_def with_db_ready)

lemma update_where_twice:
  assumes "\<And>r. row_id (f r) = row_id r"
  shows "update_where (\<lambda>r. row_id r = i) g (update_where (\<lambda>r. row_id r = i) f t)
         = update_where (\<lambda>r. row_id r = i) (\<lambda>r. g (f r)) t"
  using assms by (induction t) (simp_all add: update_where_def)

text \<open>
  Claim C2, as the code has it. With the database ready, a second soft delete of the same
  id gives the state that a single soft delete with the second call's clock readings
  gives. A record present after the first call is, after the second call, that record
  with \<open>deleted_at\<close> and \<open>updated_at\<close> replaced by the readings of the second call; it is
  pending after both calls and every other field is as after the first call.
\<close>

theorem softDelete_twice_keeps_the_second_stamps:
  assumes "ensureDBReady (client w) = Inr ()"
  shows "deleteSale d2 u2 i (snd (deleteSale d1 u1 i w)) = deleteSale d2 u2 i w \<and>
         deleteProduct d2 u2 j (snd (deleteProduct d1 u1 j w)) = deleteProduct d2 u2 j w \<and>
         (fst (getSaleById i True (snd (deleteSale d1 u1 i w))) = Inr (Some s) \<longrightarrow>
            fst (getSaleById i True (snd (deleteSale d2 u2 i (snd (deleteSale d1 u1 i w)))))
              = Inr (Some (s\<lparr>deleted_at := Some d2, updated_at := u2\<rparr>)) \<and>
            sync_status s = Pending) \<and>
         (fst (getProductById j True (snd (deleteProduct d1 u1 j w))) = Inr (Some p) \<longrightarrow>
            fst (getProductById j True (snd (deleteProduct d2 u2 j (snd (deleteProduct d1 u1 j w)))))
              = Inr (Some (p\<lparr>deleted_at := Some d2, updated_at := u2\<rparr>)) \<and>
            sync_status p = Pending)"
proof -
  let ?w1 = "snd (deleteSale d1 u1 i w)"
  let ?v1 = "snd (deleteProduct d1 u1 j w)"
  have r1: "ensureDBReady (client ?w1) = Inr ()" and r2: "ensureDBReady (client ?v1) = Inr ()"
    using assms by (simp_all add: deleteSale_ready deleteProduct_ready)
  have a: "deleteSale d2 u2 i ?w1 = deleteSale d2 u2 i w"
    using assms r1 by (simp add: deleteSale_ready update_where_twice)
  have b: "deleteProduct d2 u2 j ?v1 = deleteProduct d2 u2 j w"
    using assms r2 by (simp add: deleteProduct_ready update_where_twice)
  have c: "fst (getSaleById i True ?w1) = Inr (Some s) \<longrightarrow>
            fst (getSaleById i True (snd (deleteSale d2 u2 i ?w1)))
              = Inr (Some (s\<lparr>deleted_at := Some d2, updated_at := u2\<rparr>)) \<and>
            sync_status s = Pending"
    using assms
    by (auto simp: deleteSale_ready getSaleById_ready find_update_where_same update_where_twice)
  have d: "fst (getProductById j True ?v1) = Inr (Some p) \<longrightarrow>
            fst (getProductById j True (snd (deleteProduct d2 u2 j ?v1)))
              = Inr (Some (p\<lparr>deleted_at := Some d2, updated_at := u2\<rparr>)) \<and>
            sync_status p = Pending"
    using assms
    by (auto simp: deleteProduct_ready getProductById_ready find_update_where_same
        update_where_twice)
  show ?thesis using a b c d by blast
qed

theorem softDelete_twice_keeps_the_second_stamps_witness:
  "ensureDBReady (client shop) = Inr () \<and>
   fst (getSaleById ''s1'' True
          (snd (deleteSale ''2024-05-03T10:00:00.000Z'' ''2024-05-03T10:00:00.000Z'' ''s1'' shop)))
     = Inr (Some (sale_a\<lparr>deleted_at := Some ''2024-05-03T10:00:00.000Z'',
                         updated_at := ''2024-05-03T10:00:00.000Z'', sync_status := Pending\<rparr>)) \<and>
   fst (getProductById ''p1'' True
          (snd (deleteProduct ''2024-05-03T10:00:00.000Z'' ''2024-05-03T10:00:00.000Z'' ''p1'' shop)))
     = Inr (Some (widget\<lparr>deleted_at := Some ''2024-05-03T10:00:00.000Z'',
                         updated_at := ''2024-05-03T10:00:00.000Z'', sync_status := Pending\<rparr>)) \<and>
   fst (getSaleById ''s1'' True
          (snd (deleteSale ''2024-05-03T10:05:00.000Z'' ''2024-05-03T10:05:00.000Z'' ''s1''
            (snd (deleteSale ''2024-05-03T10:00:00.000Z'' ''2024-05-03T10:00:00.000Z'' ''s1'' shop)))))
     = Inr (Some ((sale_a\<lparr>deleted_at := Some ''2024-05-03T10:00:00.000Z'',
                          updated_at := ''2024-05-03T10:00:00.000Z'', sync_status := Pending\<rparr>)
                  \<lparr>deleted_at := Some ''2024-05-03T10:05:00.000Z'',
                   updated_at := ''2024-05-03T10:05:00.000Z''\<rparr>)) \<and>
   fst (getProductById ''p1'' True
          (snd (deleteProduct ''2024-05-03T10:05:00.000Z'' ''2024-05-03T10:05:00.000Z'' ''p1''
            (snd (deleteProduct ''2024-05-03T10:00:00.000Z'' ''2024-05-03T10:00:00.000Z'' ''p1'' shop)))))
     = Inr (Some ((widget\<lparr>deleted_at := Some ''2024-05-03T10:00:00.000Z'',
                          updated_at := ''2024-05-03T10:00:00.000Z'', sync_status := Pending\<rparr>)
                  \<lparr>deleted_at := Some ''2024-05-03T10:05:00.000Z'',
                   updated_at := ''2024-05-03T10:05:00.000Z''\<rparr>))"
proof -
  let ?t1 = "''2024-05-03T10:00:00.000Z''" and ?t2 = "''2024-05-03T10:05:00.000Z''"
  let ?s = "sale_a\<lparr>deleted_at := Some ?t1, updated_at := ?t1, sync_status := Pending\<rparr>"
  let ?p = "widget\<lparr>deleted_at := Some ?t1, updated_at := ?t1, sync_status := Pending\<rparr>"
  have hs: "fst (getSaleById ''s1'' True (snd (deleteSale ?t1 ?t1 ''s1'' shop))) = Inr (Some ?s)"
    by (simp add: deleteSale_ready getSaleById_ready shop_ready)
       (simp add: shop_defs update_where_def)
  have hp: "fst (getProductById ''p1'' True (snd (deleteProduct ?t1 ?t1 ''p1'' shop))) = Inr (Some ?p)"
    by (simp add: deleteProduct_ready getProductById_ready shop_ready)
       (simp add: shop_defs update_where_def)
  note twice = softDelete_twice_keeps_the_second_stamps [OF shop_ready,
        where i = "''s1''" and j = "''p1''" and s = ?s and p = ?p
          and ?d1.0 = ?t1 and ?u1.0 = ?t1 and ?d2.0 = ?t2 and ?u2.0 = ?t2]
  show ?thesis
    using shop_ready hs hp twice by blast
qed

text \<open>
  Claim C2 as stated fails: sale \<open>s1\<close> (and product \<open>p1\<close>) soft-deleted at 10:00 and again
  at 10:05 has \<open>deleted_at\<close> and \<open>updated_at\<close> of 10:05 after the second call, not the
  values it had after the first.
\<close>

theorem second_softDelete_changes_the_record:
  "fst (getSaleById ''s1'' True
          (snd (deleteSale ''2024-05-03T10:00:00.000Z'' ''2024-05-03T10:00:00.000Z'' ''s1'' shop)))
     = Inr (Some (sale_a\<lparr>deleted_at := Some ''2024-05-03T10:00:00.000Z'',
                         updated_at := ''2024-05-03T10:00:00.000Z'', sync_status := Pending\<rparr>)) \<and>
   fst (getSaleById ''s1'' True
          (snd (deleteSale ''2024-05-03T10:05:00.000Z'' ''2024-05-03T10:05:00.000Z'' ''s1''
            (snd (deleteSale ''2024-05-03T10:00:00.000Z'' ''2024-05-03T10:00:00.000Z'' ''s1'' shop)))))
     = Inr (Some (sale_a\<lparr>deleted_at := Some ''2024-05-03T10:05:00.000Z'',
                         updated_at := ''2024-05-03T10:05:00.000Z'', sync_status := Pending\<rparr>)) \<and>
   fst (getSaleById ''s1'' True
          (snd (deleteSale ''2024-05-03T10:05:00.000Z'' ''2024-05-03T10:05:00.000Z'' ''s1''
            (snd (deleteSale ''2024-05-03T10:00:00.000Z'' ''2024-05-03T10:00:00.000Z'' ''s1'' shop)))))
     \<noteq> fst (getSaleById ''s1'' True
          (snd (deleteSale ''2024-05-03T10:00:00.000Z'' ''2024-05-03T10:00:00.000Z'' ''s1'' shop))) \<and>
   fst (getProductById ''p1'' True
          (snd (deleteProduct ''2024-05-03T10:05:00.000Z'' ''2024-05-03T10:05:00.000Z'' ''p1''
            (snd (deleteProduct ''2024-05-03T10:00:00.000Z'' ''2024-05-03T10:00:00.000Z'' ''p1'' shop)))))
     \<noteq> fst (getProductById ''p1'' True
          (snd (deleteProduct ''2024-05-03T10:00:00.000Z'' ''2024-05-03T10:00:00.000Z'' ''p1'' shop)))"
  by (simp add: deleteSale_ready deleteProduct_ready getSaleById_ready getProductById_ready
      shop_ready)
     (simp add: shop_defs update_where_def)

section \<open>Create\<close>

lemma insert_row_fresh:
  "row_id r \<notin> set (map row_id t) \<Longrightarrow> insert_row r t = Inr (t @ [r])"
  by (simp add: insert_row_def)

lemma insert_row_taken:
  "row_id r \<in> set (map row_id t) \<Longrightarrow> insert_row r t = Inl ConstraintFailed"
  by (simp add: insert_row_def)

lemma createSale_ready:
  assumes "ensureDBReady (client w) = Inr ()" and "uuid \<notin> set (map row_id (sales w))"
  shows "createSale uuid db_now data w =
     (Inr (Some \<lparr>row_id = uuid, created_at = db_now, updated_at = db_now,
                  deleted_at = None, sync_status = Pending,
                  product_id = in_product_id data, quantity = in_quantity data,
                  total = in_total data\<rparr>),
      w\<lparr>sales := sales w @
         [\<lparr>row_id = uuid, created_at = db_now, updated_at = db_now,
           deleted_at = None, sync_status = Pending,
           product_id = in_product_id data, quantity = in_quantity data,
           total = in_total data\<rparr>]\<rparr>)"
  using assms
  by (simp add: createSale_def with_db_ready insert_row_fresh first_row_limit_select
      find_append_fresh Let_def)

lemma createProduct_ready:
  assumes "ensureDBReady (client w) = Inr ()" and "uuid \<notin> set (map row_id (products w))"
  shows "createProduct uuid db_now data w =
     (Inr (Some \<lparr>row_id = uuid, created_at = db_now, updated_at = db_now,
                  deleted_at = None, sync_status = Pending,
                  name = in_name data, price = in_price data\<rparr>),
      w\<lparr>products := products w @
         [\<lparr>row_id = uuid, created_at = db_now, updated_at = db_now,
           deleted_at = None, sync_status = Pending,
           name = in_name data, price = in_price data\<rparr>]\<rparr>)"
  using assms
  by (simp add: createProduct_def with_db_ready insert_row_fresh first_row_limit_select
      find_append_fresh Let_def)

text \<open>
  When the generated id is already a primary key of the table, the INSERT is rejected
  and nothing is stored.
\<close>

lemma create_with_taken_id_fails:
  assumes "ensureDBReady (client w) = Inr ()"
  shows "uuid \<in> set (map row_id (sales w)) \<Longrightarrow>
           createSale uuid db_now sd w = (Inl ConstraintFailed, w)"
    and "uuid \<in> set (map row_id (products w)) \<Longrightarrow>
           createProduct uuid db_now pd w = (Inl ConstraintFailed, w)"
  using assms
  by (simp_all add: createSale_def createProduct_def with_db_ready insert_row_taken Let_def)

text \<open>
  Claim C5. With the database ready and a generated id that is fresh for the table,
  \<open>createSale\<close> / \<open>createProduct\<close> store a record and return it as read back from the
  table; \<open>getSaleById\<close> / \<open>getProductById\<close> on the generated id then return the same
  record. Its fields are the input fields, the generated id, \<open>created_at\<close> and
  \<open>updated_at\<close> as filled in by the database, \<open>deleted_at = null\<close> and
  \<open>sync_status = pending\<close>.
\<close>

theorem create_returns_the_stored_record:
  assumes "ensureDBReady (client w) = Inr ()"
  shows "(uuid \<notin> set (map row_id (sales w)) \<longrightarrow>
           (\<exists>r. fst (createSale uuid db_now sd w) = Inr (Some r) \<and>
                r \<in> set (sales (snd (createSale uuid db_now sd w))) \<and>
                fst (getSaleById uuid False (snd (createSale uuid db_now sd w))) = Inr (Some r) \<and>
                row_id r = uuid \<and>
                product_id r = in_product_id sd \<and> quantity r = in_quantity sd \<and>
                total r = in_total sd \<and>
                created_at r = db_now \<and> updated_at r = db_now \<and>
                deleted_at r = None \<and> sync_status r = Pending)) \<and>
         (uuid \<notin> set (map row_id (products w)) \<longrightarrow>
           (\<exists>r. fst (createProduct uuid db_now pd w) = Inr (Some r) \<and>
                r \<in> set (products (snd (createProduct uuid db_now pd w))) \<and>
                fst (getProductById uuid False (snd (createProduct uuid db_now pd w))) = Inr (Some r) \<and>
                row_id r = uuid \<and>
                name r = in_name pd \<and> price r = in_price pd \<and>
                created_at r = db_now \<and> updated_at r = db_now \<and>
                deleted_at r = None \<and> sync_status r = Pending))"
proof (intro conjI impI)
  assume fresh: "uuid \<notin> set (map row_id (sales w))"
  show "\<exists>r. fst (createSale uuid db_now sd w) = Inr (Some r) \<and>
                r \<in> set (sales (snd (createSale uuid db_now sd w))) \<and>
                fst (getSaleById uuid False (snd (createSale uuid db_now sd w))) = Inr (Some r) \<and>
                row_id r = uuid \<and>
                product_id r = in_product_id sd \<and> quantity r = in_quantity sd \<and>
                total r = in_total sd \<and>
                created_at r = db_now \<and> updated_at r = db_now \<and>
                deleted_at r = None \<and> sync_status r = Pending"
    using assms fresh
    by (simp add: createSale_ready getSaleById_ready find_active_append_fresh)
next
  assume fresh: "uuid \<notin> set (map row_id (products w))"
  show "\<exists>r. fst (createProduct uuid db_now pd w) = Inr (Some r) \<and>
                r \<in> set (products (snd (createProduct uuid db_now pd w))) \<and>
                fst (getProductById uuid False (snd (createProduct uuid db_now pd w))) = Inr (Some r) \<and>
                row_id r = uuid \<and>
                name r = in_name pd \<and> price r = in_price pd \<and>
                created_at r = db_now \<and> updated_at r = db_now \<and>
                deleted_at r = None \<and> sync_status r = Pending"
    using assms fresh
    by (simp add: createProduct_ready getProductById_ready find_active_append_fresh)
qed

theorem create_returns_the_stored_record_witness:
  "ensureDBReady (client shop) = Inr () \<and>
   ''s3'' \<notin> set (map row_id (sales shop)) \<and>
   ''p3'' \<notin> set (map row_id (products shop)) \<and>
   (\<exists>r. fst (createSale ''s3'' ''2024-05-03 10:00:00'' two_widgets shop) = Inr (Some r) \<and>
        r \<in> set (sales (snd (createSale ''s3'' ''2024-05-03 10:00:00'' two_widgets shop))) \<and>
        fst (getSaleById ''s3'' False (snd (createSale ''s3'' ''2024-05-03 10:00:00'' two_widgets shop)))
          = Inr (Some r) \<and>
        row_id r = ''s3'' \<and>
        product_id r = in_product_id two_widgets \<and> quantity r = in_quantity two_widgets \<and>
        total r = in_total two_widgets \<and>
        created_at r = ''2024-05-03 10:00:00'' \<and> updated_at r = ''2024-05-03 10:00:00'' \<and>
        deleted_at r = None \<and> sync_status r = Pending) \<and>
   (\<exists>r. fst (createProduct ''p3'' ''2024-05-03 10:00:00'' gizmo shop) = Inr (Some r) \<and>
        r \<in> set (products (snd (createProduct ''p3'' ''2024-05-03 10:00:00'' gizmo shop))) \<and>
        fst (getProductById ''p3'' False (snd (createProduct ''p3'' ''2024-05-03 10:00:00'' gizmo shop)))
          = Inr (Some r) \<and>
        row_id r = ''p3'' \<and>
        name r = in_name gizmo \<and> price r = in_price gizmo \<and>
        created_at r = ''2024-05-03 10:00:00'' \<and> updated_at r = ''2024-05-03 10:00:00'' \<and>
        deleted_at r = None \<and> sync_status r = Pending) \<and>
   fst (createSale ''s3'' ''2024-05-03 10:00:00'' two_widgets shop) =
     Inr (Some \<lparr>row_id = ''s3'', created_at = ''2024-05-03 10:00:00'',
                 updated_at = ''2024-05-03 10:00:00'', deleted_at = None, sync_status = Pending,
                 product_id = ''p1'', quantity = 2, total = 20\<rparr>)"
proof -
  have fs: "''s3'' \<notin> set (map row_id (sales shop))"
    by (simp add: shop_defs)
  have fp: "''p3'' \<notin> set (map row_id (products shop))"
    by (simp add: shop_defs)
  have ev: "fst (createSale ''s3'' ''2024-05-03 10:00:00'' two_widgets shop) =
     Inr (Some \<lparr>row_id = ''s3'', created_at = ''2024-05-03 10:00:00'',
                 updated_at = ''2024-05-03 10:00:00'', deleted_at = None, sync_status = Pending,
                 product_id = ''p1'', quantity = 2, total = 20\<rparr>)"
    by (simp add: createSale_ready [OF shop_ready fs] two_widgets_def)
  note created = create_returns_the_stored_record [OF shop_ready,
      where uuid = "''s3''" and db_now = "''2024-05-03 10:00:00''" and sd = two_widgets,
      THEN conjunct1, rule_format, OF fs]
    create_returns_the_stored_record [OF shop_ready,
      where uuid = "''p3''" and db_now = "''2024-05-03 10:00:00''" and pd = gizmo,
      THEN conjunct2, rule_format, OF fp]
  show ?thesis
    using shop_ready fs fp ev created by blast
qed

section \<open>Every mutation marks the record pending and stamps the clock reading\<close>

lemma update_refreshes_sale:
  assumes "ensureDBReady (client w) = Inr ()"
    and "fst (getSaleById i False w) = Inr (Some s)"
  shows "fst (updateSale now i sd w) = Inr (sale_set sd now s) \<and>
         fst (getSaleById i False (snd (updateSale now i sd w))) = Inr (Some (sale_set sd now s))"
  using assms
  by (simp add: updateSale_ready getSaleById_ready find_active_update_where)

lemma update_refreshes_product:
  assumes "ensureDBReady (client w) = Inr ()"
    and "fst (getProductById j False w) = Inr (Some p)"
  shows "fst (updateProduct now j pd w) = Inr (product_set pd now p) \<and>
         fst (getProductById j False (snd (updateProduct now j pd w)))
           = Inr (Some (product_set pd now p))"
  using assms
  by (simp add: updateProduct_ready getProductById_ready find_active_update_where)

lemma softDelete_stamps_sale:
  assumes "ensureDBReady (client w) = Inr ()"
    and "fst (getSaleById i True w) = Inr (Some s)"
  shows "fst (deleteSale now_d now_u i w) = Inr () \<and>
         fst (getSaleById i True (snd (deleteSale now_d now_u i w)))
           = Inr (Some (s\<lparr>deleted_at := Some now_d, updated_at := now_u, sync_status := Pending\<rparr>))"
  using assms
  by (simp add: deleteSale_ready getSaleById_ready find_update_where_same)

lemma softDelete_stamps_product:
  assumes "ensureDBReady (client w) = Inr ()"
    and "fst (getProductById j True w) = Inr (Some p)"
  shows "fst (deleteProduct now_d now_u j w) = Inr () \<and>
         fst (getProductById j True (snd (deleteProduct now_d now_u j w)))
           = Inr (Some (p\<lparr>deleted_at := Some now_d, updated_at := now_u, sync_status := Pending\<rparr>))"
  using assms
  by (simp add: deleteProduct_ready getProductById_ready find_update_where_same)

text \<open>
  Claim C4, as the code has it. With the database ready, every mutating operation leaves
  the affected record stored with \<open>sync_status = pending\<close> and with \<open>updated_at\<close> set to
  the time the operation reads, whatever fields are changed (also when the update
  argument carries its own \<open>updated_at\<close> or \<open>sync_status\<close>):
  \<^item> a record created under a fresh id has the database's current time;
  \<^item> an active record updated by \<open>updateSale\<close> / \<open>updateProduct\<close> has the clock reading
    of the call, and the call returns the stored record;
  \<^item> a record present in the table and soft-deleted by \<open>deleteSale\<close> / \<open>deleteProduct\<close>
    has the clock reading of the call.
  The new \<open>updated_at\<close> is not less than the previous one exactly when that clock reading
  is not earlier than the stamp the record carried.
\<close>

theorem mutations_mark_pending_and_stamp_the_clock:
  assumes "ensureDBReady (client w) = Inr ()"
  shows "(su \<notin> set (map row_id (sales w)) \<longrightarrow>
           (\<exists>r. fst (createSale su db_now sdata w) = Inr (Some r) \<and>
                fst (getSaleById su True (snd (createSale su db_now sdata w))) = Inr (Some r) \<and>
                sync_status r = Pending \<and> updated_at r = db_now)) \<and>
         (pu \<notin> set (map row_id (products w)) \<longrightarrow>
           (\<exists>r. fst (createProduct pu db_now pdata w) = Inr (Some r) \<and>
                fst (getProductById pu True (snd (createProduct pu db_now pdata w))) = Inr (Some r) \<and>
                sync_status r = Pending \<and> updated_at r = db_now)) \<and>
         (fst (getSaleById i False w) = Inr (Some s) \<longrightarrow>
           (\<exists>s'. fst (updateSale now i sd w) = Inr s' \<and>
                 fst (getSaleById i False (snd (updateSale now i sd w))) = Inr (Some s') \<and>
                 sync_status s' = Pending \<and> updated_at s' = now \<and>
                 (updated_at s \<le> updated_at s') = (updated_at s \<le> now))) \<and>
         (fst (getProductById j False w) = Inr (Some p) \<longrightarrow>
           (\<exists>p'. fst (updateProduct now j pd w) = Inr p' \<and>
                 fst (getProductById j False (snd (updateProduct now j pd w))) = Inr (Some p') \<and>
                 sync_status p' = Pending \<and> updated_at p' = now \<and>
                 (updated_at p \<le> updated_at p') = (updated_at p \<le> now))) \<and>
         (fst (getSaleById i True w) = Inr (Some t) \<longrightarrow>
           (\<exists>t'. fst (deleteSale now_d now_u i w) = Inr () \<and>
                 fst (getSaleById i True (snd (deleteSale now_d now_u i w))) = Inr (Some t') \<and>
                 sync_status t' = Pending \<and> updated_at t' = now_u \<and>
                 (updated_at t \<le> updated_at t') = (updated_at t \<le> now_u))) \<and>
         (fst (getProductById j True w) = Inr (Some q) \<longrightarrow>
           (\<exists>q'. fst (deleteProduct now_d now_u j w) = Inr () \<and>
                 fst (getProductById j True (snd (deleteProduct now_d now_u j w))) = Inr (Some q') \<and>
                 sync_status q' = Pending \<and> updated_at q' = now_u \<and>
                 (updated_at q \<le> updated_at q') = (updated_at q \<le> now_u)))"
proof (intro conjI impI)
  assume "su \<notin> set (map row_id (sales w))"
  then show "\<exists>r. fst (createSale su db_now sdata w) = Inr (Some r) \<and>
                fst (getSaleById su True (snd (createSale su db_now sdata w))) = Inr (Some r) \<and>
                sync_status r = Pending \<and> updated_at r = db_now"
    using assms by (simp add: createSale_ready getSaleById_ready find_append_fresh)
next
  assume "pu \<notin> set (map row_id (products w))"
  then show "\<exists>r. fst (createProduct pu db_now pdata w) = Inr (Some r) \<and>
                fst (getProductById pu True (snd (createProduct pu db_now pdata w))) = Inr (Some r) \<and>
                sync_status r = Pending \<and> updated_at r = db_now"
    using assms by (simp add: createProduct_ready getProductById_ready find_append_fresh)
next
  assume "fst (getSaleById i False w) = Inr (Some s)"
  from update_refreshes_sale [OF assms this]
  show "\<exists>s'. fst (updateSale now i sd w) = Inr s' \<and>
                 fst (getSaleById i False (snd (updateSale now i sd w))) = Inr (Some s') \<and>
                 sync_status s' = Pending \<and> updated_at s' = now \<and>
                 (updated_at s \<le> updated_at s') = (updated_at s \<le> now)"
    by simp
next
  assume "fst (getProductById j False w) = Inr (Some p)"
  from update_refreshes_product [OF assms this]
  show "\<exists>p'. fst (updateProduct now j pd w) = Inr p' \<and>
                 fst (getProductById j False (snd (updateProduct now j pd w))) = Inr (Some p') \<and>
                 sync_status p' = Pending \<and> updated_at p' = now \<and>
                 (updated_at p \<le> updated_at p') = (updated_at p \<le> now)"
    by simp
next
  assume "fst (getSaleById i True w) = Inr (Some t)"
  from softDelete_stamps_sale [OF assms this]
  show "\<exists>t'. fst (deleteSale now_d now_u i w) = Inr () \<and>
                 fst (getSaleById i True (snd (deleteSale now_d now_u i w))) = Inr (Some t') \<and>
                 sync_status t' = Pending \<and> updated_at t' = now_u \<and>
                 (updated_at t \<le> updated_at t') = (updated_at t \<le> now_u)"
    by simp
next
  assume "fst (getProductById j True w) = Inr (Some q)"
  from softDelete_stamps_product [OF assms this]
  show "\<exists>q'. fst (deleteProduct now_d now_u j w) = Inr () \<and>
                 fst (getProductById j True (snd (deleteProduct now_d now_u j w))) = Inr (Some q') \<and>
                 sync_status q' = Pending \<and> updated_at q' = now_u \<and>
                 (updated_at q \<le> updated_at q') = (updated_at q \<le> now_u)"
    by simp
qed

theorem mutations_mark_pending_and_stamp_the_clock_witness:
  "ensureDBReady (client shop) = Inr () \<and>
   ''s3'' \<notin> set (map row_id (sales shop)) \<and>
   ''p3'' \<notin> set (map row_id (products shop)) \<and>
   fst (getSaleById ''s1'' False shop) = Inr (Some sale_a) \<and>
   fst (getProductById ''p1'' False shop) = Inr (Some widget) \<and>
   fst (getSaleById ''s1'' True shop) = Inr (Some sale_a) \<and>
   fst (getProductById ''p1'' True shop) = Inr (Some widget) \<and>
   (\<exists>r. fst (createSale ''s3'' ''2024-05-03 10:00:00'' two_widgets shop) = Inr (Some r) \<and>
        fst (getSaleById ''s3'' True (snd (createSale ''s3'' ''2024-05-03 10:00:00'' two_widgets shop)))
          = Inr (Some r) \<and>
        sync_status r = Pending \<and> updated_at r = ''2024-05-03 10:00:00'') \<and>
   (\<exists>r. fst (createProduct ''p3'' ''2024-05-03 10:00:00'' gizmo shop) = Inr (Some r) \<and>
        fst (getProductById ''p3'' True (snd (createProduct ''p3'' ''2024-05-03 10:00:00'' gizmo shop)))
          = Inr (Some r) \<and>
        sync_status r = Pending \<and> updated_at r = ''2024-05-03 10:00:00'') \<and>
   (\<exists>s'. fst (updateSale ''2024-05-03T10:00:00.000Z'' ''s1'' backdated_sale_patch shop) = Inr s' \<and>
         fst (getSaleById ''s1'' False (snd (updateSale ''2024-05-03T10:00:00.000Z'' ''s1'' backdated_sale_patch shop)))
           = Inr (Some s') \<and>
         sync_status s' = Pending \<and> updated_at s' = ''2024-05-03T10:00:00.000Z'' \<and>
         (updated_at sale_a \<le> updated_at s') = (updated_at sale_a \<le> ''2024-05-03T10:00:00.000Z'')) \<and>
   (\<exists>p'. fst (updateProduct ''2024-05-03T10:00:00.000Z'' ''p1'' backdated_product_patch shop) = Inr p' \<and>
         fst (getProductById ''p1'' False (snd (updateProduct ''2024-05-03T10:00:00.000Z'' ''p1'' backdated_product_patch shop)))
           = Inr (Some p') \<and>
         sync_status p' = Pending \<and> updated_at p' = ''2024-05-03T10:00:00.000Z'' \<and>
         (updated_at widget \<le> updated_at p') = (updated_at widget \<le> ''2024-05-03T10:00:00.000Z'')) \<and>
   (\<exists>t'. fst (deleteSale ''2024-05-03T10:00:00.000Z'' ''2024-05-03T10:00:00.000Z'' ''s1'' shop) = Inr () \<and>
         fst (getSaleById ''s1'' True (snd (deleteSale ''2024-05-03T10:00:00.000Z'' ''2024-05-03T10:00:00.000Z'' ''s1'' shop))) = Inr (Some t') \<and>
         sync_status t' = Pending \<and> updated_at t' = ''2024-05-03T10:00:00.000Z'' \<and>
         (updated_at sale_a \<le> updated_at t') = (updated_at sale_a \<le> ''2024-05-03T10:00:00.000Z'')) \<and>
   (\<exists>q'. fst (deleteProduct ''2024-05-03T10:00:00.000Z'' ''2024-05-03T10:00:00.000Z'' ''p1'' shop) = Inr () \<and>
         fst (getProductById ''p1'' True (snd (deleteProduct ''2024-05-03T10:00:00.000Z'' ''2024-05-03T10:00:00.000Z'' ''p1'' shop))) = Inr (Some q') \<and>
         sync_status q' = Pending \<and> updated_at q' = ''2024-05-03T10:00:00.000Z'' \<and>
         (updated_at widget \<le> updated_at q') = (updated_at widget \<le> ''2024-05-03T10:00:00.000Z''))"
proof -
  have fs: "''s3'' \<notin> set (map row_id (sales shop))"
    by (simp add: shop_defs)
  have fp: "''p3'' \<notin> set (map row_id (products shop))"
    by (simp add: shop_defs)
  have gs: "fst (getSaleById ''s1'' False shop) = Inr (Some sale_a)"
    by (simp add: getSaleById_ready shop_ready) (simp add: shop_defs)
  have gp: "fst (getProductById ''p1'' False shop) = Inr (Some widget)"
    by (simp add: getProductById_ready shop_ready) (simp add: shop_defs)
  have hs: "fst (getSaleById ''s1'' True shop) = Inr (Some sale_a)"
    by (simp add: getSaleById_ready shop_ready) (simp add: shop_defs)
  have hp: "fst (getProductById ''p1'' True shop) = Inr (Some widget)"
    by (simp add: getProductById_ready shop_ready) (simp add: shop_defs)
  note all = mutations_mark_pending_and_stamp_the_clock [OF shop_ready,
      where su = "''s3''" and pu = "''p3''" and db_now = "''2024-05-03 10:00:00''"
        and sdata = two_widgets and pdata = gizmo
        and i = "''s1''" and s = sale_a and t = sale_a
        and j = "''p1''" and p = widget and q = widget
        and now = "''2024-05-03T10:00:00.000Z''" and now_d = "''2024-05-03T10:00:00.000Z''" and now_u = "''2024-05-03T10:00:00.000Z''"
        and sd = backdated_sale_patch and pd = backdated_product_patch]
  show ?thesis
    using shop_ready fs fp gs gp hs hp all by blast
qed

text \<open>
  Claim C4 as stated fails. Sale \<open>s1\<close> and product \<open>p1\<close> carry stamps of 1 May 2024; an
  update of \<open>s1\<close> and a soft delete of \<open>p1\<close> performed while the clock reads 30 April
  2024 store that earlier reading, so the new \<open>updated_at\<close> is less than the previous one.
\<close>

theorem update_with_clock_set_back_lowers_updated_at:
  "fst (getSaleById ''s1'' False shop) = Inr (Some sale_a) \<and>
   updated_at sale_a = ''2024-05-01 10:00:00'' \<and>
   fst (updateSale ''2024-04-30T23:00:00.000Z'' ''s1'' more_quantity shop)
     = Inr (sale_a\<lparr>quantity := 7, total := 70, updated_at := ''2024-04-30T23:00:00.000Z'', sync_status := Pending\<rparr>) \<and>
   fst (getSaleById ''s1'' False (snd (updateSale ''2024-04-30T23:00:00.000Z'' ''s1'' more_quantity shop)))
     = Inr (Some (sale_a\<lparr>quantity := 7, total := 70, updated_at := ''2024-04-30T23:00:00.000Z'',
                         sync_status := Pending\<rparr>)) \<and>
   \<not> (updated_at sale_a
        \<le> updated_at (sale_a\<lparr>quantity := 7, total := 70, updated_at := ''2024-04-30T23:00:00.000Z'',
                               sync_status := Pending\<rparr>)) \<and>
   fst (getProductById ''p1'' False (snd (deleteProduct ''2024-04-30T23:00:00.000Z'' ''2024-04-30T23:00:00.000Z'' ''p1'' shop))) = Inr None \<and>
   fst (getProductById ''p1'' True (snd (deleteProduct ''2024-04-30T23:00:00.000Z'' ''2024-04-30T23:00:00.000Z'' ''p1'' shop)))
     = Inr (Some (widget\<lparr>deleted_at := Some ''2024-04-30T23:00:00.000Z'', updated_at := ''2024-04-30T23:00:00.000Z'', sync_status := Pending\<rparr>)) \<and>
   \<not> (updated_at widget \<le> ''2024-04-30T23:00:00.000Z'')"
  by (simp add: updateSale_ready deleteProduct_ready getSaleById_ready getProductById_ready
      shop_ready)
     (simp add: shop_defs update_where_def sale_set_def)

section \<open>Rounding to binary64\<close>

text \<open>
  \<open>exponent\<close> is the binary exponent of its argument, and \<open>round_double\<close> is within half
  a unit in the last place of its argument.
\<close>

lemma pow2_pos: "0 < pow2 k"
  by (simp add: pow2_def)

lemma pow2_nonneg_exp: "0 \<le> k \<Longrightarrow> pow2 k = 2 ^ nat k"
  by (simp add: pow2_def)

lemma pow2_neg_exp: "k \<le> 0 \<Longrightarrow> pow2 k = 1 / 2 ^ nat (- k)"
  by (simp add: pow2_def)

lemma exponent_bounds:
  assumes "x \<noteq> 0"
  shows "pow2 (exponent x) \<le> \<bar>x\<bar> \<and> \<bar>x\<bar> < pow2 (exponent x + 1)"
proof (cases "1 \<le> \<bar>x\<bar>")
  case True
  define m where "m = \<lfloor>\<bar>x\<bar>\<rfloor>"
  have m: "0 < m" using True by (simp add: m_def)
  have e: "exponent x = bitlen m - 1"
    using True by (simp add: exponent_def m_def)
  have b1: "1 \<le> bitlen m" using m by (simp add: bitlen_alt_def)
  from bitlen_bounds [OF m]
  have lo: "2 ^ nat (bitlen m - 1) \<le> m" and hi: "m < 2 ^ nat (bitlen m)" by simp_all
  have "real_of_int (2 ^ nat (bitlen m - 1)) \<le> real_of_int m"
    using lo by (simp only: of_int_le_iff)
  also have "\<dots> \<le> \<bar>x\<bar>" by (simp add: m_def)
  finally have l: "pow2 (exponent x) \<le> \<bar>x\<bar>"
    using b1 by (simp add: e pow2_nonneg_exp)
  have "m + 1 \<le> 2 ^ nat (bitlen m)" using hi by simp
  then have "real_of_int (m + 1) \<le> real_of_int (2 ^ nat (bitlen m))"
    by (simp only: of_int_le_iff)
  then have "real_of_int (m + 1) \<le> (2::real) ^ nat (bitlen m)" by simp
  moreover have "\<bar>x\<bar> < real_of_int (m + 1)"
    unfolding m_def by linarith
  ultimately have "\<bar>x\<bar> < 2 ^ nat (bitlen m)" by linarith
  then have h: "\<bar>x\<bar> < pow2 (exponent x + 1)"
    using b1 by (simp add: e pow2_nonneg_exp)
  from l h show ?thesis ..
next
  case False
  define a where "a = \<bar>x\<bar>"
  have a: "0 < a" "a < 1" using assms False by (simp_all add: a_def)
  define y where "y = 1 / a"
  have y: "1 < y" using a by (simp add: y_def)
  define n where "n = \<lceil>y\<rceil> - 1"
  have n: "0 < n" using y unfolding n_def by linarith
  define b where "b = bitlen n"
  have e: "exponent x = - b"
    using False by (simp add: exponent_def b_def n_def y_def a_def)
  have b1: "1 \<le> b" using n by (simp add: b_def bitlen_alt_def)
  from bitlen_bounds [OF n]
  have lo: "2 ^ nat (b - 1) \<le> n" and hi: "n < 2 ^ nat b" by (simp_all add: b_def)
  have "real_of_int (2 ^ nat (b - 1)) \<le> real_of_int n"
    using lo by (simp only: of_int_le_iff)
  then have "(2::real) ^ nat (b - 1) \<le> real_of_int n" by simp
  moreover have "real_of_int n < y" unfolding n_def by linarith
  ultimately have ylo: "2 ^ nat (b - 1) < y" by linarith
  have "n + 1 \<le> 2 ^ nat b" using hi by simp
  then have "real_of_int (n + 1) \<le> real_of_int (2 ^ nat b)"
    by (simp only: of_int_le_iff)
  then have "real_of_int (n + 1) \<le> (2::real) ^ nat b" by simp
  moreover have "y \<le> real_of_int (n + 1)" unfolding n_def by linarith
  ultimately have yhi: "y \<le> 2 ^ nat b" by linarith
  have "1 / 2 ^ nat b \<le> a"
    using yhi a by (simp add: y_def field_simps)
  then have l: "pow2 (exponent x) \<le> \<bar>x\<bar>"
    using b1 by (simp add: e pow2_neg_exp a_def)
  have "a < 1 / 2 ^ nat (b - 1)"
    using ylo a by (simp add: y_def field_simps)
  then have h: "\<bar>x\<bar> < pow2 (exponent x + 1)"
    using b1 by (simp add: e pow2_neg_exp a_def)
  from l h show ?thesis ..
qed

lemma round_half_even_nearest: "\<bar>real_of_int (round_half_even y) - y\<bar> \<le> 1 / 2"
  unfolding round_half_even_def Let_def
  by (auto simp: abs_if; linarith)

lemma round_double_nearest:
  "\<bar>round_double x - x\<bar> \<le> pow2 (max (exponent x) (- 1022) - 52) / 2"
proof (cases "x = 0")
  case True
  then show ?thesis using pow2_pos [of "max (exponent 0) (- 1022) - 52"]
    by (simp add: round_double_def)
next
  case False
  define u where "u = pow2 (max (exponent x) (- 1022) - 52)"
  have u: "0 < u" by (simp add: u_def pow2_pos)
  have "round_double x - x = (real_of_int (round_half_even (x / u)) - x / u) * u"
    using False u by (simp add: round_double_def Let_def u_def [symmetric] field_simps)
  then have "\<bar>round_double x - x\<bar> = \<bar>real_of_int (round_half_even (x / u)) - x / u\<bar> * u"
    using u by (simp add: abs_mult)
  also have "\<dots> \<le> 1 / 2 * u"
    using round_half_even_nearest [of "x / u"] u by (intro mult_right_mono) simp_all
  finally show ?thesis by (simp add: u_def)
qed

text \<open>
  The numbers \<open>9.99\<close> and \<open>49.95\<close>, and the product \<open>5 * 9.99\<close>: the exact product of 5
  and the double \<open>9.99\<close> is not a double, and it rounds to the double \<open>49.95\<close>.
\<close>

lemma round_double_at:
  assumes "x \<noteq> 0" and "exponent x = e" and "max e (- 1022) - 52 = k" and "pow2 k = u"
  shows "round_double x = of_int (round_half_even (x / u)) * u"
  using assms by (simp add: round_double_def Let_def)

lemma pow2_m49: "pow2 (- 49) = 1 / 562949953421312"
  by (simp add: pow2_def)

lemma pow2_m47: "pow2 (- 47) = 1 / 140737488355328"
  by (simp add: pow2_def)

lemma exponent_9_99: "exponent (999 / 100) = 3"
  by (simp add: exponent_def bitlen_def compute_floorlog)

lemma round_9_99: "round_half_even (999 / 100 / (1 / 562949953421312)) = 5623870034678907"
  by (simp add: round_half_even_def Let_def)

lemma double_9_99: "round_double (999 / 100) = 5623870034678907 / 562949953421312"
proof -
  have "round_double (999 / 100)
        = of_int (round_half_even (999 / 100 / (1 / 562949953421312))) * (1 / 562949953421312)"
    by (rule round_double_at [OF _ exponent_9_99 _ pow2_m49]) simp_all
  then show ?thesis
    unfolding round_9_99 by simp
qed

lemma exponent_49_95: "exponent (4995 / 100) = 5"
  by (simp add: exponent_def bitlen_def compute_floorlog)

lemma round_49_95: "round_half_even (4995 / 100 / (1 / 140737488355328)) = 7029837543348634"
  by (simp add: round_half_even_def Let_def)

lemma double_49_95: "round_double (4995 / 100) = 7029837543348634 / 140737488355328"
proof -
  have "round_double (4995 / 100)
        = of_int (round_half_even (4995 / 100 / (1 / 140737488355328))) * (1 / 140737488355328)"
    by (rule round_double_at [OF _ exponent_49_95 _ pow2_m47]) simp_all
  then show ?thesis
    unfolding round_49_95 by simp
qed




lemma exact_product_differs:
  "5 * round_double (999 / 100) \<noteq> round_double (4995 / 100)"
  unfolding double_9_99 double_49_95 by simp

section \<open>Sale total computed by the service\<close>


text \<open>The two rejections of the service function before anything is written.\<close>

lemma createSale_service_rejections:
  shows "q \<le> 0 \<Longrightarrow> createSale_service uuid db_now pid q w = (Inl QuantityNotPositive, w)"
    and "ensureDBReady (client w) = Inr () \<Longrightarrow> 0 < q \<Longrightarrow>
         fst (getProductById pid False w) = Inr None \<Longrightarrow>
         createSale_service uuid db_now pid q w = (Inl ProductNotFound, w)"
  by (simp_all add: createSale_service_def getProductById_ready)




end
